theory Spec2Isabelle
  imports Complex_Main
begin

section \<open>Turn orchestrator of the experiment chat client\<close>

text \<open>
  A shallow embedding of the turn orchestration in \<^verbatim>\<open>AI_clean.py\<close> (class
  \<^verbatim>\<open>ChatWindow\<close>) and of the tables in \<^verbatim>\<open>feature_flags.py\<close>.
  The two process-wide dictionaries \<^verbatim>\<open>enabled_features\<close> and
  \<^verbatim>\<open>feature_settings\<close>, the cached script list and the attributes of the window
  are fields of one state record; every method takes the state and returns it updated.
  What a method does to the widgets, the timers and the worker threads is appended to a
  trace of effects, in the order in which the source performs it. Wall-clock readings
  (\<^verbatim>\<open>time.time()\<close>) are parameters. Timestamps are real numbers: the rounding of
  Python's floats is not modelled.
\<close>

subsection \<open>Feature flags (\<^verbatim>\<open>feature_flags.py\<close>)\<close>

datatype FeatureFlag =
    SLOWDOWN | ERASE_HISTORY | BLOCK_MSGS | LIE | RUDE_TONE | KIND_TONE | ADVICE_ONLY
  | NO_MEMORY | PERSONA | AB_TESTING | AB_UI_TEST | AB_UI_ALT | SCRIPTED_RESPONSES
  | MIRROR | ANTI_MIRROR | GRAMMAR_ERRORS | TYPEWRITER | THINKING | POSITIVE_FEEDBACK
  | NEUTRAL_FEEDBACK | CRITICAL_FEEDBACK | WEB_SEARCH | HEDGING_LANGUAGE
  | DELAY_BEFORE_SEND | AUTO_END_AFTER_N_MSGS | AUTO_END_AFTER_T_MIN | TEXT_SIZE_CHANGER
  | STREAMING | CUSTOM_CHAT_TITLE | INTER_TRIAL_SURVEY | DYNAMIC_FEATURE_CHANGING

text \<open>The members in declaration order, as \<^verbatim>\<open>for flag in FeatureFlag\<close> visits them.\<close>

definition all_flags :: "FeatureFlag list" where
  "all_flags =
    [SLOWDOWN, ERASE_HISTORY, BLOCK_MSGS, LIE, RUDE_TONE, KIND_TONE, ADVICE_ONLY,
     NO_MEMORY, PERSONA, AB_TESTING, AB_UI_TEST, AB_UI_ALT, SCRIPTED_RESPONSES,
     MIRROR, ANTI_MIRROR, GRAMMAR_ERRORS, TYPEWRITER, THINKING, POSITIVE_FEEDBACK,
     NEUTRAL_FEEDBACK, CRITICAL_FEEDBACK, WEB_SEARCH, HEDGING_LANGUAGE,
     DELAY_BEFORE_SEND, AUTO_END_AFTER_N_MSGS, AUTO_END_AFTER_T_MIN, TEXT_SIZE_CHANGER,
     STREAMING, CUSTOM_CHAT_TITLE, INTER_TRIAL_SURVEY, DYNAMIC_FEATURE_CHANGING]"

fun flag_name :: "FeatureFlag \<Rightarrow> string" where
  "flag_name SLOWDOWN = ''SLOWDOWN''"
| "flag_name ERASE_HISTORY = ''ERASE_HISTORY''"
| "flag_name BLOCK_MSGS = ''BLOCK_MSGS''"
| "flag_name LIE = ''LIE''"
| "flag_name RUDE_TONE = ''RUDE_TONE''"
| "flag_name KIND_TONE = ''KIND_TONE''"
| "flag_name ADVICE_ONLY = ''ADVICE_ONLY''"
| "flag_name NO_MEMORY = ''NO_MEMORY''"
| "flag_name PERSONA = ''PERSONA''"
| "flag_name AB_TESTING = ''AB_TESTING''"
| "flag_name AB_UI_TEST = ''AB_UI_TEST''"
| "flag_name AB_UI_ALT = ''AB_UI_ALT''"
| "flag_name SCRIPTED_RESPONSES = ''SCRIPTED_RESPONSES''"
| "flag_name MIRROR = ''MIRROR''"
| "flag_name ANTI_MIRROR = ''ANTI_MIRROR''"
| "flag_name GRAMMAR_ERRORS = ''GRAMMAR_ERRORS''"
| "flag_name TYPEWRITER = ''TYPEWRITER''"
| "flag_name THINKING = ''THINKING''"
| "flag_name POSITIVE_FEEDBACK = ''POSITIVE_FEEDBACK''"
| "flag_name NEUTRAL_FEEDBACK = ''NEUTRAL_FEEDBACK''"
| "flag_name CRITICAL_FEEDBACK = ''CRITICAL_FEEDBACK''"
| "flag_name WEB_SEARCH = ''WEB_SEARCH''"
| "flag_name HEDGING_LANGUAGE = ''HEDGING_LANGUAGE''"
| "flag_name DELAY_BEFORE_SEND = ''DELAY_BEFORE_SEND''"
| "flag_name AUTO_END_AFTER_N_MSGS = ''AUTO_END_AFTER_N_MSGS''"
| "flag_name AUTO_END_AFTER_T_MIN = ''AUTO_END_AFTER_T_MIN''"
| "flag_name TEXT_SIZE_CHANGER = ''TEXT_SIZE_CHANGER''"
| "flag_name STREAMING = ''STREAMING''"
| "flag_name CUSTOM_CHAT_TITLE = ''CUSTOM_CHAT_TITLE''"
| "flag_name INTER_TRIAL_SURVEY = ''INTER_TRIAL_SURVEY''"
| "flag_name DYNAMIC_FEATURE_CHANGING = ''DYNAMIC_FEATURE_CHANGING''"

text \<open>
  \<^verbatim>\<open>FeatureFlag[feature_name]\<close>: the member of that name, or \<^verbatim>\<open>KeyError\<close>
  (here \<open>None\<close>).
\<close>

definition flag_of_name :: "string \<Rightarrow> FeatureFlag option" where
  "flag_of_name n = find (\<lambda>f. flag_name f = n) all_flags"

subsection \<open>Setting values\<close>

text \<open>
  The values that the timing, auto-end and blocking code reads from
  \<^verbatim>\<open>feature_settings\<close>: integers and floats (spin boxes, JSON numbers) and booleans
  (check boxes). Text entries of the table (file names, the window title) are read by the
  file loaders only and are not part of the table modelled here.
\<close>

datatype sval = SInt int | SFloat real | SBool bool

text \<open>Truth value of a setting, as \<^verbatim>\<open>if not x\<close> tests it.\<close>

fun py_truthy :: "sval \<Rightarrow> bool" where
  "py_truthy (SInt i) = (i \<noteq> 0)"
| "py_truthy (SFloat r) = (r \<noteq> 0)"
| "py_truthy (SBool b) = b"

text \<open>\<^verbatim>\<open>int(x)\<close>: truncation toward zero on a float, 0 or 1 on a boolean.\<close>

definition py_trunc :: "real \<Rightarrow> int" where
  "py_trunc r = (if 0 \<le> r then \<lfloor>r\<rfloor> else \<lceil>r\<rceil>)"

fun py_int :: "sval \<Rightarrow> int" where
  "py_int (SInt i) = i"
| "py_int (SFloat r) = py_trunc r"
| "py_int (SBool b) = (if b then 1 else 0)"

text \<open>The numeric value a setting has in arithmetic and comparisons (also \<^verbatim>\<open>float(x)\<close>).\<close>

fun py_num :: "sval \<Rightarrow> real" where
  "py_num (SInt i) = of_int i"
| "py_num (SFloat r) = r"
| "py_num (SBool b) = (if b then 1 else 0)"

text \<open>Python's \<^verbatim>\<open>x % y\<close> on numbers with \<open>y \<noteq> 0\<close>: the remainder of floor division.\<close>

definition py_mod :: "real \<Rightarrow> real \<Rightarrow> real" where
  "py_mod x y = x - y * of_int \<lfloor>x / y\<rfloor>"

subsection \<open>Resolution of a setting (\<^verbatim>\<open>get_setting_value\<close>)\<close>

definition get_setting_value :: "(string \<rightharpoonup> 'v) \<Rightarrow> string \<Rightarrow> bool \<Rightarrow> 'v option" where
  "get_setting_value fs setting_key is_option_b =
     (if is_option_b \<and> fs (setting_key @ ''_b'') \<noteq> None
      then fs (setting_key @ ''_b'')
      else fs setting_key)"

text \<open>
  The fallback that the call sites of \<^verbatim>\<open>get_setting_value\<close> substitute for a
  \<^verbatim>\<open>None\<close> result (\<^verbatim>\<open>if x is None: x = ...  # Fallback\<close>), per key; they agree with
  the initial primary entries of \<^verbatim>\<open>feature_settings\<close>.
\<close>

definition call_site_fallback :: "string \<rightharpoonup> sval" where
  "call_site_fallback =
     [''slowdown_permanent_after_enabled'' \<mapsto> SBool False,
      ''slowdown_permanent_after_s'' \<mapsto> SInt 600,
      ''slowdown_period_s'' \<mapsto> SInt 100,
      ''slowdown_window_s'' \<mapsto> SInt 20,
      ''slowdown_min_delay_s'' \<mapsto> SInt 4,
      ''auto_end_minutes'' \<mapsto> SInt 5,
      ''auto_end_messages'' \<mapsto> SInt 10,
      ''text_size'' \<mapsto> SInt 20,
      ''delay_seconds'' \<mapsto> SInt 2,
      ''erase_history_delay_s'' \<mapsto> SInt 60,
      ''erase_history_repeat'' \<mapsto> SBool False,
      ''erase_history_interval_s'' \<mapsto> SInt 120,
      ''block_message_count'' \<mapsto> SInt 5,
      ''block_repeat'' \<mapsto> SBool True,
      ''block_duration_s'' \<mapsto> SInt 15]"


subsection \<open>State of the chat window and trace of effects\<close>

datatype error = TypeError | KeyError | IndexError | ZeroDivisionError

text \<open>
  The closures handed to the reveal gate: \<^verbatim>\<open>proceed\<close> of \<^verbatim>\<open>_on_response\<close>, of
  \<^verbatim>\<open>_on_ab_response\<close> and of \<^verbatim>\<open>_handle_scripted_ab_turn\<close>.
\<close>

datatype proceed = ProceedResponse string | ProceedAb | ProceedScriptedAb string string

text \<open>The callables handed to \<^verbatim>\<open>QTimer.singleShot\<close>.\<close>

datatype callback = CbProceed proceed | CbOnResponse string | CbEndChat | CbShowSurvey

datatype thread =
    SingleThread string
  | UiThread string
  | ThreadA string "FeatureFlag \<Rightarrow> bool"
  | ThreadB string "FeatureFlag \<Rightarrow> bool"

datatype effect =
    AddSystemMessage string
  | AddMessage string
  | BlockingNotice sval
  | SingleShot int callback
  | EndChat
  | StartThinking
  | StopThinking
  | ShowAbDialog "string option" "string option"
  | StartTypewriter sval
  | StartAbUiAltWorkflow string
  | StartThread thread
  | EnableInput
  | DisableInput
  | StartBlockTimer
  | ApplyFontSize sval
  | StartEraseTimer sval
  | StartAutoEndTimer sval
  | SetWindowTitle string

text \<open>One record of the blueprint file.\<close>

record block =
  name :: "string option"
  duration_messages :: "int option"
  features :: "(string \<times> bool) list"
  settings :: "(string \<times> sval) list"

record chat_window =
  experiment_plan :: "block list option"
  current_block_index :: int
  messages_in_current_block :: int
  history :: "(string \<times> string) list"
  count :: int
  assistant_message_count :: int
  blocking :: bool
  remaining :: "sval option"
  must_slow_turn :: bool
  earliest_display_ts :: "real option"
  session_start_time :: real
  custom_font_size :: "sval option"
  typebuf :: string
  typeidx :: int
  current_thinking_bubble :: bool
  current_streaming_bubble :: bool
  ab_test_threshold :: int
  ab_responses :: "(string \<rightharpoonup> string option) option"
  ab_responses_ready :: int
  last_ab_choice :: "string option"
  script_index :: nat
  enabled_features :: "FeatureFlag \<Rightarrow> bool"
  feature_settings :: "string \<rightharpoonup> sval"
  scripted_convo :: "(string \<rightharpoonup> string) list"
  effects :: "effect list"

definition add_effect :: "chat_window \<Rightarrow> effect \<Rightarrow> chat_window" where
  "add_effect s e = s\<lparr>effects := effects s @ [e]\<rparr>"

definition add_system_message :: "chat_window \<Rightarrow> string \<Rightarrow> chat_window" where
  "add_system_message s m = add_effect s (AddSystemMessage m)"

definition is_enabled :: "chat_window \<Rightarrow> FeatureFlag \<Rightarrow> bool" where
  "is_enabled s flag = enabled_features s flag"

text \<open>
  The idiom \<^verbatim>\<open>x = get_setting_value(key, False); if x is None: x = d\<close> of the
  call sites.
\<close>

definition setting_or :: "chat_window \<Rightarrow> string \<Rightarrow> sval \<Rightarrow> sval" where
  "setting_or s key d =
     (case get_setting_value (feature_settings s) key False of None \<Rightarrow> d | Some v \<Rightarrow> v)"

text \<open>
  Subscription \<^verbatim>\<open>plan[index]\<close> of a list by an integer: an index below zero is
  taken from the end, and one outside both ranges raises \<^verbatim>\<open>IndexError\<close>.
\<close>

definition list_get :: "'a list \<Rightarrow> int \<Rightarrow> error + 'a" where
  "list_get xs i =
     (if 0 \<le> i \<and> i < int (length xs) then Inr (xs ! nat i)
      else if i < 0 \<and> - int (length xs) \<le> i then Inr (xs ! nat (int (length xs) + i))
      else Inl IndexError)"

subsection \<open>Timing policy\<close>

definition slowdown_permanent_active :: "chat_window \<Rightarrow> real \<Rightarrow> bool" where
  "slowdown_permanent_active s now_s =
     (if \<not> is_enabled s SLOWDOWN then False
      else
        let perm_enabled = setting_or s ''slowdown_permanent_after_enabled'' (SBool False)
        in if \<not> py_truthy perm_enabled then False
           else
             let threshold_s = setting_or s ''slowdown_permanent_after_s'' (SInt 600);
                 elapsed = now_s - session_start_time s
             in py_num threshold_s \<le> elapsed)"

definition in_slow_window :: "chat_window \<Rightarrow> real \<Rightarrow> bool" where
  "in_slow_window s send_ts =
     (if \<not> is_enabled s SLOWDOWN then False
      else
        let normal_cycle_length = max 1 (py_int (setting_or s ''slowdown_period_s'' (SInt 100)));
            slow_window_length = max 0 (py_int (setting_or s ''slowdown_window_s'' (SInt 20)))
        in if slow_window_length \<le> 0 then False
           else
             let elapsed = send_ts - session_start_time s;
                 total_period = normal_cycle_length + slow_window_length;
                 position_in_total_period = py_mod elapsed (of_int total_period)
             in of_int normal_cycle_length \<le> position_in_total_period)"

definition prepare_turn_slowdown :: "chat_window \<Rightarrow> real \<Rightarrow> chat_window" where
  "prepare_turn_slowdown s send_ts =
     (if \<not> is_enabled s SLOWDOWN
      then s\<lparr>must_slow_turn := False, earliest_display_ts := None\<rparr>
      else
        let perm_active = slowdown_permanent_active s send_ts;
            cyclic_active = in_slow_window s send_ts;
            must = (perm_active \<or> cyclic_active)
        in if must
           then s\<lparr>must_slow_turn := must,
                  earliest_display_ts :=
                    Some (send_ts + py_num (setting_or s ''slowdown_min_delay_s'' (SInt 4)))\<rparr>
           else s\<lparr>must_slow_turn := must, earliest_display_ts := None\<rparr>)"

subsection \<open>Blueprint runner and turn commit\<close>

definition end_chat :: "chat_window \<Rightarrow> chat_window" where
  "end_chat s = add_effect s EndChat"

definition apply_text_size :: "chat_window \<Rightarrow> chat_window" where
  "apply_text_size s =
     (if is_enabled s TEXT_SIZE_CHANGER
      then let font_size = setting_or s ''text_size'' (SInt 20)
           in add_effect (s\<lparr>custom_font_size := Some font_size\<rparr>) (ApplyFontSize font_size)
      else s)"

definition setup_erase_history_timer :: "chat_window \<Rightarrow> chat_window" where
  "setup_erase_history_timer s =
     (if is_enabled s ERASE_HISTORY
      then add_effect s (StartEraseTimer (setting_or s ''erase_history_delay_s'' (SInt 60)))
      else s)"

definition apply_block_config :: "chat_window \<Rightarrow> block \<Rightarrow> chat_window" where
  "apply_block_config s block_data =
     (let s1 = s\<lparr>enabled_features :=
                  fold (\<lambda>flag ef. ef(flag := False)) all_flags (enabled_features s)\<rparr>;
          s2 = s1\<lparr>enabled_features :=
                  fold (\<lambda>(feature_name, is_active) ef.
                          case flag_of_name feature_name of
                            None \<Rightarrow> ef
                          | Some flag \<Rightarrow> ef(flag := is_active))
                       (features block_data) (enabled_features s1)\<rparr>;
          s3 = s2\<lparr>feature_settings :=
                  fold (\<lambda>(k, v) fs. fs(k \<mapsto> v)) (settings block_data) (feature_settings s2)\<rparr>;
          s4 = setup_erase_history_timer (apply_text_size s3)
      in add_effect s4
           (SetWindowTitle (case name block_data of None \<Rightarrow> ''Chat'' | Some n \<Rightarrow> n)))"

definition plan_blocks :: "chat_window \<Rightarrow> block list" where
  \<comment> \<open>the plan when it is truthy, \<open>[]\<close> when it is \<^verbatim>\<open>None\<close> or empty\<close>
  "plan_blocks s = (case experiment_plan s of None \<Rightarrow> [] | Some bs \<Rightarrow> bs)"

definition start_next_block :: "chat_window \<Rightarrow> error option \<times> chat_window" where
  "start_next_block s =
     (if plan_blocks s = [] then (None, s)
      else
        let s1 = s\<lparr>current_block_index := current_block_index s + 1\<rparr>
        in if int (length (plan_blocks s1)) \<le> current_block_index s1
           then (None, end_chat (add_system_message s1 ''Experiment blueprint complete.''))
           else
             (case list_get (plan_blocks s1) (current_block_index s1) of
                Inl e \<Rightarrow> (Some e, s1)
              | Inr current_block \<Rightarrow>
                  (None, apply_block_config (s1\<lparr>messages_in_current_block := 0\<rparr>) current_block)))"

text \<open>
  \<^verbatim>\<open>_initialize_blueprint_mode\<close>; what reading the file gave is a parameter. An
  exception of \<^verbatim>\<open>_start_next_block\<close> is caught and logged there.
\<close>

datatype blueprint_file = NotFound | Unparseable | Loaded "block list"

definition initialize_blueprint_mode ::
  "chat_window \<Rightarrow> string \<Rightarrow> blueprint_file \<Rightarrow> chat_window" where
  "initialize_blueprint_mode s filename file =
     (case file of
        NotFound \<Rightarrow>
          add_system_message s (''ERROR: Blueprint file '' @ [CHR 0x27] @ filename @ [CHR 0x27] @ '' not found.'')
      | Unparseable \<Rightarrow> s
      | Loaded plan \<Rightarrow> snd (start_next_block (s\<lparr>experiment_plan := Some plan\<rparr>)))"

definition auto_end_chat :: "chat_window \<Rightarrow> string \<Rightarrow> chat_window" where
  "auto_end_chat s reason =
     add_effect
       (add_system_message s (''Chat ended automatically: '' @ reason @ '' reached.''))
       (SingleShot 2000 CbEndChat)"

definition check_auto_end_conditions :: "chat_window \<Rightarrow> bool \<times> chat_window" where
  "check_auto_end_conditions s =
     (if is_enabled s AUTO_END_AFTER_N_MSGS
      then
        let max_messages = setting_or s ''auto_end_messages'' (SInt 10)
        in if py_num max_messages \<le> of_int (assistant_message_count s)
           then (True, auto_end_chat s ''message limit'')
           else (False, s)
      else (False, s))"

definition start_block :: "chat_window \<Rightarrow> chat_window" where
  "start_block s =
     (let block_duration = setting_or s ''block_duration_s'' (SInt 15);
          s1 = add_effect (s\<lparr>blocking := True\<rparr>) (BlockingNotice block_duration);
          s2 = s1\<lparr>remaining := Some block_duration\<rparr>
      in add_effect (add_effect s2 StartBlockTimer) DisableInput)"

text \<open>\<^verbatim>\<open>n % v == 0\<close> for an integer \<open>n\<close> and a setting \<open>v\<close>.\<close>

definition divides_count :: "int \<Rightarrow> sval \<Rightarrow> error + bool" where
  "divides_count n v =
     (if py_num v = 0 then Inl ZeroDivisionError else Inr (py_mod (of_int n) (py_num v) = 0))"

text \<open>
  The part of \<^verbatim>\<open>_finish_response\<close> after the blueprint branch (standard mode),
  in three steps: the survey trigger, where \<^verbatim>\<open>survey_trigger_count\<close> is read with
  \<^verbatim>\<open>feature_settings.get(.., 5)\<close>; the clearing of the timing decision and the
  auto-end check; the message-count blocking.
\<close>

definition schedule_survey :: "chat_window \<Rightarrow> error + chat_window" where
  "schedule_survey s =
     (if is_enabled s INTER_TRIAL_SURVEY
      then
        (let trigger_count =
               (case feature_settings s ''survey_trigger_count'' of
                  None \<Rightarrow> SInt 5 | Some v \<Rightarrow> v)
         in if 0 < assistant_message_count s
            then (case divides_count (assistant_message_count s) trigger_count of
                    Inl e \<Rightarrow> Inl e
                  | Inr d \<Rightarrow>
                      Inr (if d then add_effect s (SingleShot 1000 CbShowSurvey) else s))
            else Inr s)
      else Inr s)"

definition blocking_due :: "chat_window \<Rightarrow> error + bool" where
  "blocking_due s =
     (if is_enabled s BLOCK_MSGS
      then
        (let message_threshold = setting_or s ''block_message_count'' (SInt 5);
             repeat_blocking = setting_or s ''block_repeat'' (SBool True)
         in if py_truthy repeat_blocking
            then (if 0 < count s
                  then divides_count (count s) message_threshold
                  else Inr False)
            else Inr (of_int (count s) = py_num message_threshold))
      else Inr False)"

definition finish_standard :: "chat_window \<Rightarrow> error option \<times> chat_window" where
  "finish_standard s =
     (case schedule_survey s of
        Inl e \<Rightarrow> (Some e, s)
      | Inr s1 \<Rightarrow>
          (let s2 = s1\<lparr>must_slow_turn := False, earliest_display_ts := None\<rparr>;
               checked = check_auto_end_conditions s2;
               s3 = snd checked
           in if fst checked then (None, s3)
              else
                (case blocking_due s3 of
                   Inl e \<Rightarrow> (Some e, s3)
                 | Inr b \<Rightarrow> (None, if b then start_block s3 else add_effect s3 EnableInput))))"

text \<open>
  \<^verbatim>\<open>_finish_response\<close>: the commit of a turn. With a blueprint loaded the method
  returns at the end of the blueprint branch.
\<close>

definition finish_response :: "chat_window \<Rightarrow> string \<Rightarrow> error option \<times> chat_window" where
  "finish_response s reply =
     (let s1 = s\<lparr>last_ab_choice := None,
                 ab_responses := None,
                 history := history s @ [(''assistant'', reply)],
                 count := count s + 1,
                 assistant_message_count := assistant_message_count s + 1\<rparr>
      in if plan_blocks s1 \<noteq> []
         then
           (let s2 = s1\<lparr>messages_in_current_block := messages_in_current_block s1 + 1\<rparr>
            in case list_get (plan_blocks s2) (current_block_index s2) of
                 Inl e \<Rightarrow> (Some e, s2)
               | Inr current_block \<Rightarrow>
                   (let duration =
                          (case duration_messages current_block of None \<Rightarrow> 10 | Some d \<Rightarrow> d);
                        advanced =
                          (if duration \<le> messages_in_current_block s2
                           then start_next_block s2 else (None, s2))
                    in case fst advanced of
                         Some e \<Rightarrow> (Some e, snd advanced)
                       | None \<Rightarrow> (None, add_effect (snd advanced) EnableInput)))
         else finish_standard s1)"

subsection \<open>Presentation of a reply and the reveal gate\<close>

text \<open>\<^verbatim>\<open>'```' in reply\<close>.\<close>

fun contains_str :: "string \<Rightarrow> string \<Rightarrow> bool" where
  "contains_str p [] = (p = [])"
| "contains_str p (c # cs) = (take (length p) (c # cs) = p \<or> contains_str p cs)"

definition display_response :: "chat_window \<Rightarrow> string \<Rightarrow> bool \<Rightarrow> error option \<times> chat_window" where
  "display_response s reply is_option_b =
     (if is_enabled s STREAMING \<and> current_streaming_bubble s
      then finish_response (s\<lparr>current_streaming_bubble := False\<rparr>) reply
      else if is_enabled s TYPEWRITER
      then (if contains_str ''```'' reply
            then finish_response (add_effect s (AddMessage reply)) reply
            else
              let typewriter_speed =
                    (case get_setting_value (feature_settings s) ''typewriter_speed_ms'' is_option_b of
                       None \<Rightarrow> SInt (if is_option_b then 50 else 20)
                     | Some v \<Rightarrow> v)
              in (None, add_effect (s\<lparr>typebuf := reply, typeidx := 0\<rparr>)
                          (StartTypewriter typewriter_speed)))
      else finish_response (add_effect s (AddMessage reply)) reply)"

definition start_thinking :: "chat_window \<Rightarrow> chat_window" where
  "start_thinking s = add_effect (s\<lparr>current_thinking_bubble := True\<rparr>) StartThinking"

text \<open>The teardown of the thinking bubble at the head of every \<^verbatim>\<open>proceed\<close>.\<close>

definition stop_thinking :: "chat_window \<Rightarrow> chat_window" where
  "stop_thinking s =
     (if current_thinking_bubble s
      then add_effect (s\<lparr>current_thinking_bubble := False\<rparr>) StopThinking
      else s)"

text \<open>
  Running a \<^verbatim>\<open>proceed\<close> closure. The comparison dialog is modal; the model stops at
  its opening. \<^verbatim>\<open>proceed\<close> of \<^verbatim>\<open>_on_ab_response\<close> reads
  \<^verbatim>\<open>self.ab_responses['A']\<close> and \<^verbatim>\<open>['B']\<close> when it runs.
\<close>

definition run_proceed :: "chat_window \<Rightarrow> proceed \<Rightarrow> error option \<times> chat_window" where
  "run_proceed s fn =
     (case fn of
        ProceedResponse reply \<Rightarrow> display_response (stop_thinking s) reply False
      | ProceedAb \<Rightarrow>
          (let s1 = stop_thinking s
           in case ab_responses s1 of
                None \<Rightarrow> (Some TypeError, s1)
              | Some r \<Rightarrow>
                  (case r ''A'' of
                     None \<Rightarrow> (Some KeyError, s1)
                   | Some a \<Rightarrow>
                       (case r ''B'' of
                          None \<Rightarrow> (Some KeyError, s1)
                        | Some b \<Rightarrow> (None, add_effect s1 (ShowAbDialog a b)))))
      | ProceedScriptedAb reply_a reply_b \<Rightarrow>
          (None, add_effect (stop_thinking s) (ShowAbDialog (Some reply_a) (Some reply_b))))"

definition maybe_delay_then :: "chat_window \<Rightarrow> real \<Rightarrow> proceed \<Rightarrow> error option \<times> chat_window" where
  "maybe_delay_then s now fn =
     (case (if must_slow_turn s then earliest_display_ts s else None) of
        Some ts \<Rightarrow>
          (let remaining = max 0 (ts - now)
           in if 0 < remaining
              then (None, add_effect s (SingleShot (py_trunc (remaining * 1000)) (CbProceed fn)))
              else run_proceed s fn)
      | None \<Rightarrow> run_proceed s fn)"

definition on_response :: "chat_window \<Rightarrow> string \<Rightarrow> real \<Rightarrow> error option \<times> chat_window" where
  "on_response s reply now = maybe_delay_then s now (ProceedResponse reply)"

definition on_ab_response ::
  "chat_window \<Rightarrow> string \<Rightarrow> string \<Rightarrow> real \<Rightarrow> error option \<times> chat_window" where
  "on_ab_response s reply version now =
     (case ab_responses s of
        None \<Rightarrow> (Some TypeError, s)
      | Some r \<Rightarrow>
          (let s1 = s\<lparr>ab_responses := Some (r(version \<mapsto> Some reply))\<rparr>;
               s2 = s1\<lparr>ab_responses_ready := ab_responses_ready s1 + 1\<rparr>
           in if ab_responses_ready s2 = 2
              then maybe_delay_then s2 now ProceedAb
              else (None, s2)))"

definition handle_scripted_ab_turn ::
  "chat_window \<Rightarrow> string \<Rightarrow> string \<Rightarrow> real \<Rightarrow> error option \<times> chat_window" where
  "handle_scripted_ab_turn s reply_a reply_b now =
     maybe_delay_then s now (ProceedScriptedAb reply_a reply_b)"

subsection \<open>Dispatch of a turn (\<^verbatim>\<open>_send_after_delay\<close>)\<close>

definition content_feature_mappings :: "(string \<times> FeatureFlag) list" where
  "content_feature_mappings =
     [(''ab_lie_b'', LIE), (''ab_rude_tone_b'', RUDE_TONE), (''ab_kind_tone_b'', KIND_TONE),
      (''ab_advice_only_b'', ADVICE_ONLY), (''ab_no_memory_b'', NO_MEMORY),
      (''ab_persona_b'', PERSONA), (''ab_mirror_b'', MIRROR),
      (''ab_anti_mirror_b'', ANTI_MIRROR), (''ab_grammar_errors_b'', GRAMMAR_ERRORS),
      (''ab_positive_feedback_b'', POSITIVE_FEEDBACK),
      (''ab_critical_feedback_b'', CRITICAL_FEEDBACK),
      (''ab_neutral_feedback_b'', NEUTRAL_FEEDBACK), (''ab_hedging_b'', HEDGING_LANGUAGE)]"

definition ui_feature_mappings :: "(string \<times> FeatureFlag) list" where
  "ui_feature_mappings =
     [(''ab_streaming_b'', STREAMING), (''ab_text_size_changer_b'', TEXT_SIZE_CHANGER),
      (''ab_typewriter_b'', TYPEWRITER), (''ab_thinking_b'', THINKING)]"

text \<open>\<^verbatim>\<open>feature_settings.get(setting_key, False)\<close> as a condition.\<close>

definition setting_true :: "(string \<rightharpoonup> sval) \<Rightarrow> string \<Rightarrow> bool" where
  "setting_true fs k = (case fs k of None \<Rightarrow> False | Some v \<Rightarrow> py_truthy v)"

definition exclude_siblings :: "FeatureFlag \<Rightarrow> (FeatureFlag \<Rightarrow> bool) \<Rightarrow> (FeatureFlag \<Rightarrow> bool)" where
  "exclude_siblings flag ob =
     (if flag = RUDE_TONE then ob(KIND_TONE := False)
      else if flag = KIND_TONE then ob(RUDE_TONE := False)
      else if flag = MIRROR then ob(ANTI_MIRROR := False)
      else if flag = ANTI_MIRROR then ob(MIRROR := False)
      else if flag \<in> set [POSITIVE_FEEDBACK, CRITICAL_FEEDBACK, NEUTRAL_FEEDBACK]
      then fold (\<lambda>feedback_flag ob'.
                   if feedback_flag \<noteq> flag then ob'(feedback_flag := False) else ob')
             [POSITIVE_FEEDBACK, CRITICAL_FEEDBACK, NEUTRAL_FEEDBACK] ob
      else ob)"

definition option_b_features :: "(string \<rightharpoonup> sval) \<Rightarrow> (FeatureFlag \<Rightarrow> bool)" where
  "option_b_features fs =
     (let ob1 = fold (\<lambda>(setting_key, flag) ob.
                        if setting_true fs setting_key
                        then exclude_siblings flag (ob(flag := True)) else ob)
                  content_feature_mappings (\<lambda>_. False)
      in fold (\<lambda>(setting_key, flag) ob.
                 if setting_true fs setting_key then ob(flag := True) else ob)
           ui_feature_mappings ob1)"

text \<open>\<^verbatim>\<open>if is_enabled(FeatureFlag.THINKING) and not self._current_thinking_bubble\<close>.\<close>

definition thinking_if_idle :: "chat_window \<Rightarrow> chat_window" where
  "thinking_if_idle s =
     (if is_enabled s THINKING \<and> \<not> current_thinking_bubble s then start_thinking s else s)"

text \<open>
  Steps 2 to 6 of \<^verbatim>\<open>_send_after_delay\<close>: the live dispatch that runs when scripted
  mode is off, the script is finished, or the step type is unknown.
\<close>

definition live_dispatch :: "chat_window \<Rightarrow> string \<Rightarrow> error option \<times> chat_window" where
  "live_dispatch s txt =
     (case (if is_enabled s AB_TESTING
            then (if ab_test_threshold s = 0 then Inl ZeroDivisionError
                  else Inr ((count s + 1) mod ab_test_threshold s = 0))
            else Inr False) of
        Inl e \<Rightarrow> (Some e, s)
      | Inr is_ab_turn \<Rightarrow>
          (if is_ab_turn \<and> is_enabled s AB_UI_ALT
           then (None, add_effect (thinking_if_idle s) (StartAbUiAltWorkflow txt))
           else if is_ab_turn \<and> is_enabled s AB_UI_TEST
           then (None, add_effect (thinking_if_idle s) (StartThread (UiThread txt)))
           else if is_ab_turn
           then
             (let s1 = thinking_if_idle s;
                  s2 = s1\<lparr>ab_responses := Some [''A'' \<mapsto> None, ''B'' \<mapsto> None],
                         ab_responses_ready := 0\<rparr>;
                  s3 = add_effect s2 (StartThread (ThreadA txt (enabled_features s2)))
              in (None, add_effect s3
                          (StartThread (ThreadB txt (option_b_features (feature_settings s3))))))
           else (None, add_effect (thinking_if_idle s) (StartThread (SingleThread txt)))))"

definition send_after_delay ::
  "chat_window \<Rightarrow> string \<Rightarrow> real \<Rightarrow> real \<Rightarrow> error option \<times> chat_window" where
  "send_after_delay s txt sent_ts now =
     (let s1 = prepare_turn_slowdown s sent_ts
      in if is_enabled s1 SCRIPTED_RESPONSES
         then
           (let script_list = scripted_convo s1
            in if script_index s1 < length script_list
               then
                 (let current_step = script_list ! script_index s1;
                      s2 = s1\<lparr>script_index := script_index s1 + 1\<rparr>;
                      step_type = (case current_step ''type'' of None \<Rightarrow> ''normal'' | Some t \<Rightarrow> t)
                  in if step_type = ''normal''
                     then
                       (let reply =
                              (case current_step ''response'' of
                                 None \<Rightarrow> ''SCRIPT ERROR: Missing '' @ [CHR 0x27] @ ''response'' @ [CHR 0x27] @ '' key''
                               | Some r \<Rightarrow> r);
                            s3 = (if is_enabled s2 THINKING then start_thinking s2 else s2)
                        in (None, add_effect s3 (SingleShot 1000 (CbOnResponse reply))))
                     else if step_type = ''ab_test''
                     then
                       (let reply_a =
                              (case current_step ''response_a'' of
                                 None \<Rightarrow> ''SCRIPT ERROR: Missing '' @ [CHR 0x27] @ ''response_a'' @ [CHR 0x27]
                               | Some r \<Rightarrow> r);
                            reply_b =
                              (case current_step ''response_b'' of
                                 None \<Rightarrow> ''SCRIPT ERROR: Missing '' @ [CHR 0x27] @ ''response_b'' @ [CHR 0x27]
                               | Some r \<Rightarrow> r);
                            s3 = (if is_enabled s2 THINKING then start_thinking s2 else s2)
                        in handle_scripted_ab_turn s3 reply_a reply_b now)
                     else live_dispatch s2 txt)
               else live_dispatch s1 txt)
         else live_dispatch s1 txt)"

subsection \<open>Sessions\<close>

text \<open>
  The events that the event loop delivers to the handlers above: a user message reaching
  \<^verbatim>\<open>_send_after_delay\<close> (with its send timestamp and the clock), the completion of a
  single request or of one side of a pair (with the clock), a timer firing its callable,
  the end of the typewriter effect, and the control panel setting a flag. A handler that
  raises keeps the assignments it made before. The survey dialog that the survey timer
  opens is modal and touches none of the fields below, so its callable leaves the state
  as it is.
\<close>

datatype event =
    Send string real real
  | Response string real
  | AbResponse string string real
  | Fire callback real
  | TypewriterDone
  | SetFlag FeatureFlag bool

definition handle :: "chat_window \<Rightarrow> event \<Rightarrow> error option \<times> chat_window" where
  "handle s ev =
     (case ev of
        Send txt sent_ts now \<Rightarrow> send_after_delay s txt sent_ts now
      | Response reply now \<Rightarrow> on_response s reply now
      | AbResponse reply version now \<Rightarrow> on_ab_response s reply version now
      | Fire cb now \<Rightarrow>
          (case cb of
             CbProceed fn \<Rightarrow> run_proceed s fn
           | CbOnResponse reply \<Rightarrow> on_response s reply now
           | CbEndChat \<Rightarrow> (None, end_chat s)
           | CbShowSurvey \<Rightarrow> (None, s))
      | TypewriterDone \<Rightarrow> finish_response (add_effect s (AddMessage (typebuf s))) (typebuf s)
      | SetFlag flag checked \<Rightarrow>
          (None, s\<lparr>enabled_features := (enabled_features s)(flag := checked)\<rparr>))"

fun run :: "chat_window \<Rightarrow> event list \<Rightarrow> chat_window" where
  "run s [] = s"
| "run s (ev # evs) = run (snd (handle s ev)) evs"

text \<open>
  \<^verbatim>\<open>__init__\<close> in two parts. First the attribute assignments of its steps 1 to
  9, for given tables, script and start time.
\<close>

definition init_attributes ::
  "(FeatureFlag \<Rightarrow> bool) \<Rightarrow> (string \<rightharpoonup> sval) \<Rightarrow> (string \<rightharpoonup> string) list \<Rightarrow> real \<Rightarrow> chat_window" where
  "init_attributes ef fs script t0 =
     \<lparr>experiment_plan = None, current_block_index = - 1, messages_in_current_block = 0,
      history = [], count = 0, assistant_message_count = 0, blocking = False,
      remaining = None, must_slow_turn = False, earliest_display_ts = None,
      session_start_time = t0, custom_font_size = None, typebuf = [], typeidx = 0,
      current_thinking_bubble = False, current_streaming_bubble = False,
      ab_test_threshold =
        (case fs ''ab_test_message_threshold'' of
           None \<Rightarrow> 5
         | Some v \<Rightarrow> if py_num v < 1 then 5 else py_int v),
      ab_responses = None, ab_responses_ready = 0, last_ab_choice = None,
      script_index = 0, enabled_features = ef, feature_settings = fs,
      scripted_convo = script, effects = []\<rparr>"

text \<open>
  Then its step 10: the one-shot timer of the time-based auto-end, the erase timer, the
  text size and, under \<^verbatim>\<open>DYNAMIC_FEATURE_CHANGING\<close>, the loading of the blueprint,
  whose file name and content are parameters. The construction of the widgets
  (\<^verbatim>\<open>_build_ui\<close>) assigns none of the fields and is not traced.
\<close>

definition setup_auto_end_timer :: "chat_window \<Rightarrow> chat_window" where
  "setup_auto_end_timer s =
     (if is_enabled s AUTO_END_AFTER_T_MIN
      then add_effect s (StartAutoEndTimer (setting_or s ''auto_end_minutes'' (SInt 5)))
      else s)"

definition init_window ::
  "(FeatureFlag \<Rightarrow> bool) \<Rightarrow> (string \<rightharpoonup> sval) \<Rightarrow> (string \<rightharpoonup> string) list \<Rightarrow> real \<Rightarrow>
   string \<Rightarrow> blueprint_file \<Rightarrow> chat_window" where
  "init_window ef fs script t0 filename file =
     (let s0 = init_attributes ef fs script t0;
          s1 = apply_text_size (setup_erase_history_timer (setup_auto_end_timer s0))
      in if is_enabled s1 DYNAMIC_FEATURE_CHANGING
         then initialize_blueprint_mode s1 filename file
         else s1)"

text \<open>The numeric and boolean entries of \<^verbatim>\<open>feature_settings\<close> as the module creates it.\<close>

definition default_feature_settings :: "string \<rightharpoonup> sval" where
  "default_feature_settings =
     [''text_size'' \<mapsto> SInt 20,
      ''delay_seconds'' \<mapsto> SInt 2,
      ''auto_end_messages'' \<mapsto> SInt 10,
      ''auto_end_minutes'' \<mapsto> SInt 5,
      ''slowdown_period_s'' \<mapsto> SInt 100,
      ''slowdown_window_s'' \<mapsto> SInt 20,
      ''slowdown_min_delay_s'' \<mapsto> SInt 4,
      ''slowdown_permanent_after_enabled'' \<mapsto> SBool False,
      ''slowdown_permanent_after_s'' \<mapsto> SInt 600,
      ''erase_history_delay_s'' \<mapsto> SInt 60,
      ''erase_history_repeat'' \<mapsto> SBool False,
      ''erase_history_interval_s'' \<mapsto> SInt 120,
      ''block_message_count'' \<mapsto> SInt 5,
      ''block_duration_s'' \<mapsto> SInt 15,
      ''block_repeat'' \<mapsto> SBool True,
      ''typewriter_speed_ms'' \<mapsto> SInt 20,
      ''ab_test_message_threshold'' \<mapsto> SInt 5,
      ''text_size_b'' \<mapsto> SInt 24,
      ''delay_seconds_b'' \<mapsto> SInt 3,
      ''auto_end_messages_b'' \<mapsto> SInt 15,
      ''auto_end_minutes_b'' \<mapsto> SInt 8,
      ''slowdown_period_s_b'' \<mapsto> SInt 150,
      ''slowdown_window_s_b'' \<mapsto> SInt 30,
      ''slowdown_min_delay_s_b'' \<mapsto> SInt 6,
      ''slowdown_permanent_after_enabled_b'' \<mapsto> SBool True,
      ''slowdown_permanent_after_s_b'' \<mapsto> SInt 900,
      ''erase_history_delay_s_b'' \<mapsto> SInt 90,
      ''erase_history_repeat_b'' \<mapsto> SBool True,
      ''erase_history_interval_s_b'' \<mapsto> SInt 180,
      ''block_message_count_b'' \<mapsto> SInt 8,
      ''block_duration_s_b'' \<mapsto> SInt 25,
      ''block_repeat_b'' \<mapsto> SBool False,
      ''typewriter_speed_ms_b'' \<mapsto> SInt 50]"

text \<open>All flags off, as \<^verbatim>\<open>enabled_features\<close> is created.\<close>

definition no_features :: "FeatureFlag \<Rightarrow> bool" where
  "no_features = (\<lambda>_. False)"

text \<open>
  A window with the shipped settings (period 100, window 20), the slowdown flag set and
  the session started at time 0, so that a send timestamp is the elapsed time; and the
  same with a period of 99.9 and a window of 20.9 seconds.
\<close>

definition slow_window_example :: chat_window where
  "slow_window_example =
     init_window (no_features(SLOWDOWN := True)) default_feature_settings [] 0
       ''experiment_blueprint.json'' NotFound"

definition fractional_window_example :: chat_window where
  "fractional_window_example =
     init_window (no_features(SLOWDOWN := True))
       [''slowdown_period_s'' \<mapsto> SFloat (999 / 10), ''slowdown_window_s'' \<mapsto> SFloat (209 / 10)]
       [] 0 ''experiment_blueprint.json'' NotFound"

text \<open>
  A blueprint of two blocks that last 2 and 3 messages and override nothing, and the
  window that \<^verbatim>\<open>__init__\<close> creates when it loads this blueprint.
\<close>

definition two_block_plan :: "block list" where
  "two_block_plan =
     [\<lparr>name = Some ''first'', duration_messages = Some 2, features = [], settings = []\<rparr>,
      \<lparr>name = Some ''second'', duration_messages = Some 3, features = [], settings = []\<rparr>]"

definition two_block_example :: chat_window where
  "two_block_example =
     init_window (no_features(DYNAMIC_FEATURE_CHANGING := True)) default_feature_settings [] 0
       ''experiment_blueprint.json'' (Loaded two_block_plan)"

text \<open>
  A blueprint whose only block switches the message-count auto-end on with a maximum of
  one message, the window that loads it, and a window without blueprint that has the
  same flag and maximum.
\<close>

definition auto_end_plan :: "block list" where
  "auto_end_plan =
     [\<lparr>name = Some ''only'', duration_messages = Some 10,
       features = [(''AUTO_END_AFTER_N_MSGS'', True)],
       settings = [(''auto_end_messages'', SInt 1)]\<rparr>]"

definition auto_end_blueprint_example :: chat_window where
  "auto_end_blueprint_example =
     init_window (no_features(DYNAMIC_FEATURE_CHANGING := True)) default_feature_settings [] 0
       ''experiment_blueprint.json'' (Loaded auto_end_plan)"

definition auto_end_standard_example :: chat_window where
  "auto_end_standard_example =
     init_window (no_features(AUTO_END_AFTER_N_MSGS := True))
       [''auto_end_messages'' \<mapsto> SInt 1] [] 0 ''experiment_blueprint.json'' NotFound"


text \<open>
  A window without blueprint in which the slowdown is permanent from the start of the
  session and replies are typed out; the window after a message sent at time 5 has been
  dispatched there; and the window after the reply, arriving at time 20, has passed the
  reveal gate.
\<close>

definition typewriter_slow_example :: chat_window where
  "typewriter_slow_example =
     init_window (no_features(SLOWDOWN := True, TYPEWRITER := True))
       [''slowdown_permanent_after_enabled'' \<mapsto> SBool True,
        ''slowdown_permanent_after_s'' \<mapsto> SInt 0]
       [] 0 ''experiment_blueprint.json'' NotFound"

definition typewriter_turn_sent :: chat_window where
  "typewriter_turn_sent = snd (send_after_delay typewriter_slow_example ''q'' 5 5)"

definition typewriter_turn_typing :: chat_window where
  "typewriter_turn_typing =
     snd (maybe_delay_then typewriter_turn_sent 20 (ProceedResponse ''hi''))"

text \<open>
  A window in which every turn is a content comparison (threshold 1), the window after a
  message has been dispatched there as a pair of requests, and the window after side A
  of the pair has completed.
\<close>

definition ab_example :: chat_window where
  "ab_example =
     init_window (no_features(AB_TESTING := True))
       [''ab_test_message_threshold'' \<mapsto> SInt 1] [] 0 ''experiment_blueprint.json'' NotFound"

definition ab_trial_started :: chat_window where
  "ab_trial_started = snd (send_after_delay ab_example ''q'' 1 1)"

definition ab_one_side_ready :: chat_window where
  "ab_one_side_ready = snd (on_ab_response ab_trial_started ''x'' ''A'' 2)"


text \<open>
  The state of the script player: the cursor \<^verbatim>\<open>script_index\<close> and the cached list
  that \<^verbatim>\<open>get_scripted_convo()\<close> returns.
\<close>

definition cursor :: "chat_window \<Rightarrow> nat \<times> (string \<rightharpoonup> string) list" where
  "cursor s = (script_index s, scripted_convo s)"

text \<open>
  Scripted mode with a script of one normal step, the same window after its first turn
  has consumed the step, and scripted mode with a script whose only step has the type
  \<^verbatim>\<open>survey\<close>.
\<close>

definition script_example :: chat_window where
  "script_example =
     init_window (no_features(SCRIPTED_RESPONSES := True)) Map.empty
       [[''type'' \<mapsto> ''normal'', ''response'' \<mapsto> ''hi'']] 0
       ''experiment_blueprint.json'' NotFound"

definition script_exhausted_example :: chat_window where
  "script_exhausted_example = run script_example [Send ''q'' 1 1]"

definition script_unknown_example :: chat_window where
  "script_unknown_example =
     init_window (no_features(SCRIPTED_RESPONSES := True)) Map.empty
       [[''type'' \<mapsto> ''survey'', ''response'' \<mapsto> ''never shown'']] 0
       ''experiment_blueprint.json'' NotFound"


section \<open>Properties\<close>

lemmas init_window_defs =
  init_window_def init_attributes_def setup_auto_end_timer_def setup_erase_history_timer_def
  apply_text_size_def is_enabled_def no_features_def add_effect_def Let_def

subsection \<open>Remainders\<close>

lemma py_mod_nonneg:
  assumes "0 < y"
  shows "0 \<le> py_mod x y"
proof -
  have "of_int \<lfloor>x / y\<rfloor> \<le> x / y" by (rule of_int_floor_le)
  with assms have "of_int \<lfloor>x / y\<rfloor> * y \<le> x" by (subst (asm) pos_le_divide_eq) auto
  then show ?thesis by (simp add: py_mod_def mult.commute)
qed

lemma py_mod_less:
  assumes "0 < y"
  shows "py_mod x y < y"
proof -
  have "x / y < of_int \<lfloor>x / y\<rfloor> + 1" by linarith
  with assms have "x < (of_int \<lfloor>x / y\<rfloor> + 1) * y" by (subst (asm) pos_divide_less_eq) auto
  then show ?thesis by (simp add: py_mod_def algebra_simps)
qed

lemmas example_window_defs =
  init_window_defs is_enabled_def no_features_def setting_or_def get_setting_value_def
  default_feature_settings_def

subsection \<open>Timing policy\<close>

text \<open>
  C1 (as amended). With the slowdown flag set, a turn sent at \<open>send_ts\<close> is in the
  cyclic slow window iff \<open>(elapsed mod (P + W)) \<ge> P\<close>, where \<open>elapsed\<close> is the send
  time minus the session start, \<open>P\<close> is the configured period converted by
  \<^verbatim>\<open>int()\<close>, that is truncated toward zero to an integer, and then floored at 1,
  and \<open>W\<close> is the configured window truncated toward zero to an integer and then
  floored at 0 (absent settings count as 100 and 20); with the flag off, or with
  \<open>W = 0\<close>, the turn is never in the window. With period 100 and window 20 the cycle
  is 120 seconds long: elapsed 110 is in the slow window, 90 is not, 219 is not (99
  seconds into the second cycle) and 220 is (100 seconds into it). With period 99.9 and
  window 20.9 the integers are 99 and 20, so elapsed 99 is in the slow window.
\<close>

theorem in_slow_window_cyclic:
  "in_slow_window s send_ts =
     (is_enabled s SLOWDOWN \<and>
      (let P = max 1 (py_int (setting_or s ''slowdown_period_s'' (SInt 100)));
           W = max 0 (py_int (setting_or s ''slowdown_window_s'' (SInt 20)))
       in of_int P \<le> py_mod (send_ts - session_start_time s) (of_int (P + W))))
   \<and> in_slow_window s send_ts =
     (is_enabled s SLOWDOWN \<and>
      (let P = max 1 (py_int (setting_or s ''slowdown_period_s'' (SInt 100)));
           W = max 0 (py_int (setting_or s ''slowdown_window_s'' (SInt 20)))
       in 0 < W \<and> of_int P \<le> py_mod (send_ts - session_start_time s) (of_int (P + W))))
   \<and> in_slow_window slow_window_example 110
   \<and> \<not> in_slow_window slow_window_example 90
   \<and> \<not> in_slow_window slow_window_example 219
   \<and> in_slow_window slow_window_example 220
   \<and> in_slow_window fractional_window_example 99"
proof -
  define P where "P = max 1 (py_int (setting_or s ''slowdown_period_s'' (SInt 100)))"
  define W where "W = max 0 (py_int (setting_or s ''slowdown_window_s'' (SInt 20)))"
  have P: "1 \<le> P" and W: "0 \<le> W" by (simp_all add: P_def W_def)
  have zero: "\<not> of_int P \<le> py_mod e (of_int (P + W))" if "W \<le> 0" for e :: real
  proof -
    from that W have "W = 0" by simp
    moreover have "py_mod e (of_int P) < of_int P" using P by (intro py_mod_less) simp
    ultimately show ?thesis by simp
  qed
  have general: "in_slow_window s send_ts =
      (is_enabled s SLOWDOWN \<and>
       of_int P \<le> py_mod (send_ts - session_start_time s) (of_int (P + W)))"
    unfolding in_slow_window_def Let_def P_def [symmetric] W_def [symmetric]
    using zero by auto
  have guarded: "in_slow_window s send_ts =
      (is_enabled s SLOWDOWN \<and> 0 < W \<and>
       of_int P \<le> py_mod (send_ts - session_start_time s) (of_int (P + W)))"
    unfolding in_slow_window_def Let_def P_def [symmetric] W_def [symmetric]
    by auto
  have e110: "in_slow_window slow_window_example 110"
    by (simp add: in_slow_window_def slow_window_example_def example_window_defs py_mod_def)
  have e90: "\<not> in_slow_window slow_window_example 90"
    by (simp add: in_slow_window_def slow_window_example_def example_window_defs py_mod_def)
  have e219: "\<not> in_slow_window slow_window_example 219"
    by (simp add: in_slow_window_def slow_window_example_def example_window_defs py_mod_def)
  have e220: "in_slow_window slow_window_example 220"
    by (simp add: in_slow_window_def slow_window_example_def example_window_defs py_mod_def)
  have f99: "in_slow_window fractional_window_example 99"
    by (simp add: in_slow_window_def fractional_window_example_def init_window_defs
        setting_or_def get_setting_value_def py_mod_def py_trunc_def)
  from general guarded e110 e90 e219 e220 f99 show ?thesis
    unfolding Let_def P_def W_def by blast
qed

text \<open>
  C1 as stated fails at elapsed 219 with period 100 and window 20: the position in the
  120-second cycle is 99, below the period, so the turn is not in the slow window.
\<close>

theorem in_slow_window_219_counterexample:
  "is_enabled slow_window_example SLOWDOWN
   \<and> setting_or slow_window_example ''slowdown_period_s'' (SInt 100) = SInt 100
   \<and> setting_or slow_window_example ''slowdown_window_s'' (SInt 20) = SInt 20
   \<and> 219 - session_start_time slow_window_example = 219
   \<and> py_mod 219 (100 + 20) = 99
   \<and> \<not> in_slow_window slow_window_example 219"
  by (simp add: in_slow_window_def slow_window_example_def example_window_defs py_mod_def)

text \<open>
  C7. The decision taken at send time: \<open>must_slow_turn\<close> is set iff the permanent
  slowdown or the cyclic slow window fires; when it is set, the earliest display time is
  the send time plus the configured minimum delay (4 when absent), whichever mechanism
  fired; when it is not set, the earliest display time is absent.
\<close>

theorem prepare_turn_slowdown_decision:
  "must_slow_turn (prepare_turn_slowdown s send_ts) =
     (slowdown_permanent_active s send_ts \<or> in_slow_window s send_ts)
   \<and> earliest_display_ts (prepare_turn_slowdown s send_ts) =
     (if must_slow_turn (prepare_turn_slowdown s send_ts)
      then Some (send_ts + py_num (setting_or s ''slowdown_min_delay_s'' (SInt 4)))
      else None)"
  by (simp add: prepare_turn_slowdown_def Let_def slowdown_permanent_active_def
      in_slow_window_def)

subsection \<open>Resolution of settings\<close>

text \<open>
  C6 (as amended). For every settings table and key, resolving for the primary variant
  returns the entry of the key if present; resolving for the alternate variant returns
  the entry of the sibling key \<open>key + "_b"\<close> if present and the primary resolution
  otherwise; resolving a key absent from the table never raises and returns
  \<^verbatim>\<open>None\<close>, for which each call site substitutes its own hard-coded fallback.
\<close>

theorem get_setting_value_resolution:
  "get_setting_value fs key False = fs key
   \<and> get_setting_value fs key True =
       (if fs (key @ ''_b'') \<noteq> None then fs (key @ ''_b'')
        else get_setting_value fs key False)
   \<and> get_setting_value (fs(key := None)) key False = None
   \<and> setting_or s key d = (case feature_settings s key of None \<Rightarrow> d | Some v \<Rightarrow> v)"
  by (simp add: get_setting_value_def setting_or_def)

text \<open>
  C6 as stated fails for an absent key: on the empty table the resolution of
  \<^verbatim>\<open>slowdown_period_s\<close> is \<^verbatim>\<open>None\<close>, not the fallback 100 of its call site.
\<close>

theorem get_setting_value_absent_counterexample:
  "get_setting_value (Map.empty :: string \<rightharpoonup> sval) ''slowdown_period_s'' False = None
   \<and> call_site_fallback ''slowdown_period_s'' = Some (SInt 100)
   \<and> get_setting_value (Map.empty :: string \<rightharpoonup> sval) ''slowdown_period_s'' False
       \<noteq> call_site_fallback ''slowdown_period_s''"
  by (simp add: get_setting_value_def call_site_fallback_def)

subsection \<open>Blueprint blocks\<close>

lemma flag_in_all_flags: "f \<in> set all_flags"
  by (cases f) (simp_all add: all_flags_def)

lemma flag_of_name_Some: "flag_of_name n = Some f \<Longrightarrow> flag_name f = n"
  by (auto simp add: flag_of_name_def find_Some_iff)

lemma flag_of_name_flag_name: "flag_of_name (flag_name f) = Some f"
  by (cases f) (simp_all add: flag_of_name_def all_flags_def)

lemma flag_of_name_iff: "flag_of_name n = Some f \<longleftrightarrow> n = flag_name f"
  using flag_of_name_Some flag_of_name_flag_name by blast

lemma flag_name_inj: "flag_name f = flag_name g \<Longrightarrow> f = g"
  by (metis flag_of_name_flag_name option.inject)

lemma fold_reset:
  "fold (\<lambda>flag ef. ef(flag := False)) xs ef f = (if f \<in> set xs then False else ef f)"
  by (induction xs arbitrary: ef) auto

text \<open>The loop over the block's features: the last entry of a flag's name decides.\<close>

lemma fold_features:
  "fold (\<lambda>(feature_name, is_active) ef.
            case flag_of_name feature_name of None \<Rightarrow> ef | Some flag \<Rightarrow> ef(flag := is_active))
     xs ef f =
   (case map_of (rev xs) (flag_name f) of None \<Rightarrow> ef f | Some v \<Rightarrow> v)"
proof (induction xs arbitrary: ef)
  case Nil
  then show ?case by simp
next
  case (Cons x xs)
  obtain n b where x: "x = (n, b)" by (cases x)
  show ?case
  proof (cases "flag_of_name n")
    case None
    then have "flag_name f \<noteq> n" using flag_of_name_flag_name [of f] by auto
    with None show ?thesis
      by (auto simp add: x Cons.IH map_add_def split: option.splits)
  next
    case (Some g)
    then have n: "n = flag_name g" by (simp add: flag_of_name_iff)
    show ?thesis
      using Some flag_name_inj [of f g]
      by (auto simp add: x n Cons.IH map_add_def split: option.splits)
  qed
qed

lemma fold_settings:
  "fold (\<lambda>(k, v) fs. fs(k \<mapsto> v)) xs fs key =
   (case map_of (rev xs) key of None \<Rightarrow> fs key | Some v \<Rightarrow> Some v)"
proof (induction xs arbitrary: fs)
  case Nil
  then show ?case by simp
next
  case (Cons x xs)
  obtain k v where x: "x = (k, v)" by (cases x)
  have "fold (\<lambda>(k, v) fs. fs(k \<mapsto> v)) (x # xs) fs key =
        fold (\<lambda>(k, v) fs. fs(k \<mapsto> v)) xs (fs(k \<mapsto> v)) key"
    by (simp add: x)
  also have "\<dots> = (case map_of (rev xs) key of None \<Rightarrow> (fs(k \<mapsto> v)) key | Some v' \<Rightarrow> Some v')"
    by (rule Cons.IH)
  also have "\<dots> = (case map_of (rev (x # xs)) key of None \<Rightarrow> fs key | Some v' \<Rightarrow> Some v')"
    by (simp add: x map_add_def split: option.splits)
  finally show ?case .
qed

lemma apply_block_config_features:
  "enabled_features (apply_block_config s b) f =
     (case map_of (rev (features b)) (flag_name f) of None \<Rightarrow> False | Some v \<Rightarrow> v)"
  by (simp add: apply_block_config_def Let_def add_effect_def setup_erase_history_timer_def
      apply_text_size_def fold_features fold_reset flag_in_all_flags split: option.splits)

lemma apply_block_config_settings:
  "feature_settings (apply_block_config s b) k =
     (case map_of (rev (settings b)) k of None \<Rightarrow> feature_settings s k | Some v \<Rightarrow> Some v)"
  by (simp add: apply_block_config_def Let_def add_effect_def setup_erase_history_timer_def
      apply_text_size_def fold_settings)

text \<open>
  C3. Activating a block first sets every flag of the enumeration to false and then
  applies the block's feature overrides: afterwards a flag reads what the block's
  features say for its name (the last entry, should a name repeat) and false when the
  block does not name it, whatever it was before; so a flag set only by block 0 reads
  false once block 1 is active unless block 1 sets it. The block's setting overrides
  overwrite exactly their own keys of the live settings table and every other key keeps
  its value.
\<close>

theorem apply_block_config_resets_then_overrides:
  "enabled_features (apply_block_config s b) f =
     (case map_of (rev (features b)) (flag_name f) of None \<Rightarrow> False | Some v \<Rightarrow> v)
   \<and> enabled_features (apply_block_config (apply_block_config s b0) b1) f =
     (case map_of (rev (features b1)) (flag_name f) of None \<Rightarrow> False | Some v \<Rightarrow> v)
   \<and> feature_settings (apply_block_config s b) k =
     (case map_of (rev (settings b)) k of None \<Rightarrow> feature_settings s k | Some v \<Rightarrow> Some v)"
  by (simp only: apply_block_config_features apply_block_config_settings)

subsection \<open>Turn commit\<close>

lemmas commit_defs =
  handle_def on_response_def maybe_delay_then_def run_proceed_def display_response_def
  stop_thinking_def finish_response_def start_next_block_def apply_block_config_def
  plan_blocks_def list_get_def add_effect_def add_system_message_def end_chat_def
  apply_text_size_def setup_erase_history_timer_def is_enabled_def
  initialize_blueprint_mode_def init_window_defs no_features_def all_flags_def Let_def

lemma two_block_after_2:
  "current_block_index (run two_block_example [Response ''a'' 1, Response ''b'' 2]) = 1
   \<and> messages_in_current_block (run two_block_example [Response ''a'' 1, Response ''b'' 2]) = 0"
  by (simp add: commit_defs two_block_example_def two_block_plan_def)

lemma two_block_after_4:
  "current_block_index
     (run two_block_example
        [Response ''a'' 1, Response ''b'' 2, Response ''c'' 3, Response ''d'' 4]) = 1
   \<and> messages_in_current_block
     (run two_block_example
        [Response ''a'' 1, Response ''b'' 2, Response ''c'' 3, Response ''d'' 4]) = 2"
  by (simp add: commit_defs two_block_example_def two_block_plan_def)

lemma two_block_after_5:
  "current_block_index
     (run two_block_example
        [Response ''a'' 1, Response ''b'' 2, Response ''c'' 3, Response ''d'' 4,
         Response ''e'' 5]) = 2
   \<and> effects
     (run two_block_example
        [Response ''a'' 1, Response ''b'' 2, Response ''c'' 3, Response ''d'' 4,
         Response ''e'' 5]) =
     [SetWindowTitle ''first'', AddMessage ''a'', EnableInput,
      AddMessage ''b'', SetWindowTitle ''second'', EnableInput,
      AddMessage ''c'', EnableInput, AddMessage ''d'', EnableInput,
      AddMessage ''e'', AddSystemMessage ''Experiment blueprint complete.'',
      EndChat, EnableInput]"
  by (simp add: commit_defs two_block_example_def two_block_plan_def)

lemma finish_response_blueprint:
  assumes "experiment_plan s = Some bs" "0 \<le> current_block_index s"
    "current_block_index s < int (length bs)"
  shows "(let d = (case duration_messages (bs ! nat (current_block_index s)) of
                  None \<Rightarrow> 10 | Some d \<Rightarrow> d);
           s' = snd (finish_response s reply)
       in fst (finish_response s reply) = None
          \<and> experiment_plan s' = Some bs
          \<and> (if messages_in_current_block s + 1 < d
              then current_block_index s' = current_block_index s
                   \<and> messages_in_current_block s' = messages_in_current_block s + 1
              else current_block_index s' = current_block_index s + 1
                   \<and> (if current_block_index s + 1 < int (length bs)
                       then messages_in_current_block s' = 0
                       else effects s' = effects s @
                              [AddSystemMessage ''Experiment blueprint complete.'',
                               EndChat, EnableInput])))"
  using assms
  by (auto simp add: finish_response_def start_next_block_def plan_blocks_def list_get_def
      Let_def add_effect_def add_system_message_def end_chat_def apply_block_config_def
      apply_text_size_def setup_erase_history_timer_def split: option.splits)

text \<open>
  C4. While a blueprint is loaded and a block is current, the commit of a turn
  increments the count of messages in the block. When the count reaches the block's
  duration (10 when the block gives none), the runner advances: the block index goes up
  by one and, when it is still inside the plan, the count is reset to zero for the new
  block; when it is past the end of the plan, the completion is announced and the chat
  is ended. With durations 2 and 3, the runner is in block 1 with count 0 after two
  committed replies, still in block 1 after four, and after the fifth the index is past
  the end and the session is terminated.
\<close>

theorem blueprint_commit_advances:
  assumes "experiment_plan s = Some bs"
    and "0 \<le> current_block_index s"
    and "current_block_index s < int (length bs)"
  shows "(let d = (case duration_messages (bs ! nat (current_block_index s)) of
                  None \<Rightarrow> 10 | Some d \<Rightarrow> d);
           s' = snd (finish_response s reply)
       in fst (finish_response s reply) = None
          \<and> experiment_plan s' = Some bs
          \<and> (if messages_in_current_block s + 1 < d
              then current_block_index s' = current_block_index s
                   \<and> messages_in_current_block s' = messages_in_current_block s + 1
              else current_block_index s' = current_block_index s + 1
                   \<and> (if current_block_index s + 1 < int (length bs)
                       then messages_in_current_block s' = 0
                       else effects s' = effects s @
                              [AddSystemMessage ''Experiment blueprint complete.'',
                               EndChat, EnableInput])))
     \<and> current_block_index (run two_block_example [Response ''a'' 1, Response ''b'' 2]) = 1
     \<and> messages_in_current_block
          (run two_block_example [Response ''a'' 1, Response ''b'' 2]) = 0
     \<and> current_block_index
          (run two_block_example
             [Response ''a'' 1, Response ''b'' 2, Response ''c'' 3, Response ''d'' 4]) = 1
     \<and> current_block_index
          (run two_block_example
             [Response ''a'' 1, Response ''b'' 2, Response ''c'' 3, Response ''d'' 4,
              Response ''e'' 5]) = 2
     \<and> effects
          (run two_block_example
             [Response ''a'' 1, Response ''b'' 2, Response ''c'' 3, Response ''d'' 4,
              Response ''e'' 5]) =
        [SetWindowTitle ''first'', AddMessage ''a'', EnableInput,
         AddMessage ''b'', SetWindowTitle ''second'', EnableInput,
         AddMessage ''c'', EnableInput, AddMessage ''d'', EnableInput,
         AddMessage ''e'', AddSystemMessage ''Experiment blueprint complete.'',
         EndChat, EnableInput]"
  using finish_response_blueprint [OF assms, of reply]
    two_block_after_2 two_block_after_4 two_block_after_5
  by (simp only: simp_thms)

text \<open>
  Witness for C4: the two-block example right after loading is in block 0 of its plan;
  the first commit there leaves it in block 0 with one message counted.
\<close>

theorem blueprint_commit_advances_witness:
  "experiment_plan two_block_example = Some two_block_plan
   \<and> 0 \<le> current_block_index two_block_example
   \<and> current_block_index two_block_example < int (length two_block_plan)
   \<and> fst (finish_response two_block_example ''a'') = None
   \<and> current_block_index (snd (finish_response two_block_example ''a'')) = 0
   \<and> messages_in_current_block (snd (finish_response two_block_example ''a'')) = 1"
proof -
  have h1: "experiment_plan two_block_example = Some two_block_plan"
    by (simp add: commit_defs two_block_example_def two_block_plan_def)
  have h2: "0 \<le> current_block_index two_block_example"
    by (simp add: commit_defs two_block_example_def two_block_plan_def)
  have h3: "current_block_index two_block_example < int (length two_block_plan)"
    by (simp add: commit_defs two_block_example_def two_block_plan_def)
  have i0: "current_block_index two_block_example = 0"
    by (simp add: commit_defs two_block_example_def two_block_plan_def)
  have m0: "messages_in_current_block two_block_example = 0"
    by (simp add: commit_defs two_block_example_def two_block_plan_def)
  have d0: "duration_messages (two_block_plan ! 0) = Some 2"
    by (simp add: two_block_plan_def)
  from blueprint_commit_advances [OF h1 h2 h3, of "''a''"]
  have "fst (finish_response two_block_example ''a'') = None
     \<and> current_block_index (snd (finish_response two_block_example ''a'')) = 0
     \<and> messages_in_current_block (snd (finish_response two_block_example ''a'')) = 1"
    by (simp add: Let_def i0 m0 d0)
  with h1 h2 h3 show ?thesis by simp
qed

lemma schedule_survey_cases:
  assumes "schedule_survey s = Inr s1"
  shows "s1 = s \<or> s1 = add_effect s (SingleShot 1000 CbShowSurvey)"
  using assms
  by (simp add: schedule_survey_def Let_def split: if_splits sum.splits)

lemma finish_response_standard:
  assumes "plan_blocks s = []"
  shows "finish_response s reply =
     finish_standard (s\<lparr>last_ab_choice := None, ab_responses := None,
        history := history s @ [(''assistant'', reply)], count := count s + 1,
        assistant_message_count := assistant_message_count s + 1\<rparr>)"
  using assms by (simp add: finish_response_def plan_blocks_def Let_def)

lemma finish_standard_auto_end:
  assumes en: "is_enabled c AUTO_END_AFTER_N_MSGS"
    and reached: "py_num (setting_or c ''auto_end_messages'' (SInt 10))
                    \<le> of_int (assistant_message_count c)"
    and ok: "fst (finish_standard c) = None"
  shows "\<exists>pre. effects (snd (finish_standard c)) =
           effects c @ pre @
           [AddSystemMessage ''Chat ended automatically: message limit reached.'',
            SingleShot 2000 CbEndChat]
         \<and> set pre \<subseteq> {SingleShot 1000 CbShowSurvey}"
proof (cases "schedule_survey c")
  case (Inl e)
  with ok show ?thesis by (simp add: finish_standard_def)
next
  case (Inr s1)
  define s2 where "s2 = s1\<lparr>must_slow_turn := False, earliest_display_ts := None\<rparr>"
  from schedule_survey_cases [OF Inr]
  have s1: "s1 = c \<or> s1 = add_effect c (SingleShot 1000 CbShowSurvey)" .
  then have same: "is_enabled s2 AUTO_END_AFTER_N_MSGS"
      "setting_or s2 ''auto_end_messages'' (SInt 10) = setting_or c ''auto_end_messages'' (SInt 10)"
      "assistant_message_count s2 = assistant_message_count c"
    using en by (auto simp add: s2_def is_enabled_def setting_or_def add_effect_def)
  have chk: "check_auto_end_conditions s2 = (True, auto_end_chat s2 ''message limit'')"
    using same reached by (simp add: check_auto_end_conditions_def Let_def)
  have fin: "finish_standard c = (None, auto_end_chat s2 ''message limit'')"
    by (simp add: finish_standard_def Inr Let_def s2_def [symmetric] chk)
  from s1 show ?thesis
  proof
    assume "s1 = c"
    then have "effects (snd (finish_standard c)) = effects c @ [] @
           [AddSystemMessage ''Chat ended automatically: message limit reached.'',
            SingleShot 2000 CbEndChat]"
      by (simp add: fin s2_def auto_end_chat_def add_effect_def add_system_message_def)
    then show ?thesis by (intro exI [of _ "[]"]) simp
  next
    assume "s1 = add_effect c (SingleShot 1000 CbShowSurvey)"
    then have "effects (snd (finish_standard c)) = effects c @ [SingleShot 1000 CbShowSurvey] @
           [AddSystemMessage ''Chat ended automatically: message limit reached.'',
            SingleShot 2000 CbEndChat]"
      by (simp add: fin s2_def auto_end_chat_def add_effect_def add_system_message_def)
    then show ?thesis by (intro exI [of _ "[SingleShot 1000 CbShowSurvey]"]) simp
  qed
qed

text \<open>
  The standard path of the commit does what C9 says: when no blueprint is loaded and the
  commit completes, if the message-count auto-end flag is set and the count of assistant
  messages, including the one just committed, has reached the configured maximum (10
  when absent), then the termination is announced and the close of the chat is scheduled
  2000 ms later; these are the last effects of the commit, preceded at most by the
  scheduling of the survey.
\<close>

theorem auto_end_after_commit:
  assumes "plan_blocks s = []"
    and "is_enabled s AUTO_END_AFTER_N_MSGS"
    and "py_num (setting_or s ''auto_end_messages'' (SInt 10))
           \<le> of_int (assistant_message_count s + 1)"
    and "fst (finish_response s reply) = None"
  shows "\<exists>pre. effects (snd (finish_response s reply)) =
           effects s @ pre @
           [AddSystemMessage ''Chat ended automatically: message limit reached.'',
            SingleShot 2000 CbEndChat]
         \<and> set pre \<subseteq> {SingleShot 1000 CbShowSurvey}"
proof -
  define c where "c = s\<lparr>last_ab_choice := None, ab_responses := None,
        history := history s @ [(''assistant'', reply)], count := count s + 1,
        assistant_message_count := assistant_message_count s + 1\<rparr>"
  have fr: "finish_response s reply = finish_standard c"
    unfolding c_def using assms(1) by (rule finish_response_standard)
  have "\<exists>pre. effects (snd (finish_standard c)) =
           effects c @ pre @
           [AddSystemMessage ''Chat ended automatically: message limit reached.'',
            SingleShot 2000 CbEndChat]
         \<and> set pre \<subseteq> {SingleShot 1000 CbShowSurvey}"
  proof (rule finish_standard_auto_end)
    show "is_enabled c AUTO_END_AFTER_N_MSGS"
      using assms(2) by (simp add: c_def is_enabled_def)
    show "py_num (setting_or c ''auto_end_messages'' (SInt 10))
            \<le> of_int (assistant_message_count c)"
      using assms(3) by (simp add: c_def setting_or_def)
    show "fst (finish_standard c) = None" using assms(4) by (simp add: fr)
  qed
  moreover have "effects c = effects s" by (simp add: c_def)
  ultimately show ?thesis by (simp add: fr)
qed

text \<open>
  An instance of the standard path: a window without blueprint, the flag set and a
  maximum of one message; its first commit announces the termination.
\<close>

theorem auto_end_after_commit_witness:
  "plan_blocks auto_end_standard_example = []
   \<and> is_enabled auto_end_standard_example AUTO_END_AFTER_N_MSGS
   \<and> py_num (setting_or auto_end_standard_example ''auto_end_messages'' (SInt 10))
        \<le> of_int (assistant_message_count auto_end_standard_example + 1)
   \<and> fst (finish_response auto_end_standard_example ''hello'') = None
   \<and> (\<exists>pre. effects (snd (finish_response auto_end_standard_example ''hello'')) =
           effects auto_end_standard_example @ pre @
           [AddSystemMessage ''Chat ended automatically: message limit reached.'',
            SingleShot 2000 CbEndChat]
         \<and> set pre \<subseteq> {SingleShot 1000 CbShowSurvey})"
proof -
  have h1: "plan_blocks auto_end_standard_example = []"
    by (simp add: auto_end_standard_example_def init_window_defs plan_blocks_def)
  have h2: "is_enabled auto_end_standard_example AUTO_END_AFTER_N_MSGS"
    by (simp add: auto_end_standard_example_def init_window_defs is_enabled_def)
  have h3: "py_num (setting_or auto_end_standard_example ''auto_end_messages'' (SInt 10))
        \<le> of_int (assistant_message_count auto_end_standard_example + 1)"
    by (simp add: auto_end_standard_example_def init_window_defs setting_or_def
        get_setting_value_def)
  have h4: "fst (finish_response auto_end_standard_example ''hello'') = None"
    by (simp add: auto_end_standard_example_def init_window_defs finish_response_def
        plan_blocks_def finish_standard_def schedule_survey_def check_auto_end_conditions_def
        is_enabled_def no_features_def setting_or_def get_setting_value_def Let_def)
  from auto_end_after_commit [OF h1 h2 h3 h4] h1 h2 h3 h4 show ?thesis by blast
qed

text \<open>
  C9: after a committed turn the auto-end check is due whenever the flag is set and the
  maximum is reached. The code misses it on the blueprint path, where the commit returns
  before the check that the standard path runs. In the example the active block sets
  the flag and a maximum of 1, the commit makes the assistant count 1 and completes, yet
  all it adds to the trace is the re-enabling of the input: no termination is announced
  and no close is scheduled.
\<close>

theorem auto_end_blueprint_failing_input:
  "is_enabled (snd (finish_response auto_end_blueprint_example ''hello'')) AUTO_END_AFTER_N_MSGS
   \<and> setting_or (snd (finish_response auto_end_blueprint_example ''hello''))
        ''auto_end_messages'' (SInt 10) = SInt 1
   \<and> assistant_message_count (snd (finish_response auto_end_blueprint_example ''hello'')) = 1
   \<and> fst (finish_response auto_end_blueprint_example ''hello'') = None
   \<and> effects auto_end_blueprint_example = [SetWindowTitle ''only'']
   \<and> effects (snd (finish_response auto_end_blueprint_example ''hello'')) =
        [SetWindowTitle ''only'', EnableInput]"
  by (simp add: commit_defs auto_end_blueprint_example_def auto_end_plan_def flag_of_name_def
      setting_or_def get_setting_value_def)

subsection \<open>Reveal gate\<close>

lemmas gate_defs =
  send_after_delay_def prepare_turn_slowdown_def slowdown_permanent_active_def
  in_slow_window_def live_dispatch_def thinking_if_idle_def setting_or_def
  get_setting_value_def maybe_delay_then_def run_proceed_def display_response_def
  stop_thinking_def plan_blocks_def

lemma typewriter_turn_sent_fields:
  "must_slow_turn typewriter_turn_sent
   \<and> earliest_display_ts typewriter_turn_sent = Some 9
   \<and> effects typewriter_turn_sent = [StartThread (SingleThread ''q'')]
   \<and> plan_blocks typewriter_turn_sent = []
   \<and> \<not> current_thinking_bubble typewriter_turn_sent
   \<and> \<not> current_streaming_bubble typewriter_turn_sent
   \<and> is_enabled typewriter_turn_sent TYPEWRITER
   \<and> \<not> is_enabled typewriter_turn_sent STREAMING"
  by (simp add: typewriter_turn_sent_def typewriter_slow_example_def init_window_defs gate_defs)

lemma typewriter_turn_typing_fields:
  "must_slow_turn typewriter_turn_typing
   \<and> earliest_display_ts typewriter_turn_typing = Some 9
   \<and> effects typewriter_turn_typing =
       [StartThread (SingleThread ''q''), StartTypewriter (SInt 20)]
   \<and> typebuf typewriter_turn_typing = ''hi''
   \<and> plan_blocks typewriter_turn_typing = []"
  by (simp add: typewriter_turn_typing_def typewriter_turn_sent_def typewriter_slow_example_def
      init_window_defs gate_defs)

lemma check_auto_end_timing:
  "must_slow_turn (snd (check_auto_end_conditions s)) = must_slow_turn s
   \<and> earliest_display_ts (snd (check_auto_end_conditions s)) = earliest_display_ts s"
  by (simp add: check_auto_end_conditions_def auto_end_chat_def add_effect_def
      add_system_message_def Let_def)

lemma start_block_timing:
  "must_slow_turn (start_block s) = must_slow_turn s
   \<and> earliest_display_ts (start_block s) = earliest_display_ts s"
  by (simp add: start_block_def add_effect_def Let_def)

lemma finish_standard_clears:
  assumes "fst (finish_standard c) = None"
  shows "\<not> must_slow_turn (snd (finish_standard c))
         \<and> earliest_display_ts (snd (finish_standard c)) = None"
proof (cases "schedule_survey c")
  case (Inl e)
  with assms show ?thesis by (simp add: finish_standard_def)
next
  case (Inr s1)
  define s3 where
    "s3 = snd (check_auto_end_conditions
                (s1\<lparr>must_slow_turn := False, earliest_display_ts := None\<rparr>))"
  have s3: "\<not> must_slow_turn s3 \<and> earliest_display_ts s3 = None"
    by (simp add: s3_def check_auto_end_timing)
  show ?thesis
  proof (cases "blocking_due s3")
    case (Inl e)
    then show ?thesis
      using s3 by (simp add: finish_standard_def Inr Let_def s3_def [symmetric])
  next
    case (Inr b)
    then show ?thesis
      using s3 \<open>schedule_survey c = Inr s1\<close>
      by (simp add: finish_standard_def Let_def s3_def [symmetric] start_block_timing
          add_effect_def)
  qed
qed

lemma gate_typewriter_keeps_decision:
  assumes "is_enabled s TYPEWRITER"
    and "\<not> (is_enabled s STREAMING \<and> current_streaming_bubble s)"
    and "\<not> contains_str ''```'' reply"
  shows "fst (maybe_delay_then s now (ProceedResponse reply)) = None
         \<and> must_slow_turn (snd (maybe_delay_then s now (ProceedResponse reply)))
             = must_slow_turn s
         \<and> earliest_display_ts (snd (maybe_delay_then s now (ProceedResponse reply)))
             = earliest_display_ts s"
  using assms
  by (auto simp add: maybe_delay_then_def run_proceed_def display_response_def
      stop_thinking_def is_enabled_def add_effect_def Let_def split: option.splits)

text \<open>
  C8 (as amended). The reveal gate runs its action at once when no delay is decided for
  the turn or the earliest display time has passed; otherwise it schedules the action
  after the remaining time (in whole milliseconds) and returns without running it. The
  gate is single-shot per turn: a call either runs the action or hands the action
  itself to one timer, and the timer, when it fires, runs the action without passing
  the gate again. The gate does not clear the decision: after a scheduling
  \<open>must_slow_turn\<close> and the earliest display time are as before, and so they are
  after the gate has fired an action that types the reply out, until the turn is
  committed. It is the commit of the turn, on its standard path, that clears the
  decision, and the decision of the next turn depends on neither field left behind.
\<close>

theorem maybe_delay_then_gate:
  "maybe_delay_then s now fn =
     (case (if must_slow_turn s then earliest_display_ts s else None) of
        None \<Rightarrow> run_proceed s fn
      | Some ts \<Rightarrow>
          if now < ts
          then (None, add_effect s (SingleShot (py_trunc ((ts - now) * 1000)) (CbProceed fn)))
          else run_proceed s fn)
   \<and> (must_slow_turn s \<and> earliest_display_ts s = Some ts \<and> now < ts \<longrightarrow>
        fst (maybe_delay_then s now fn) = None
        \<and> effects (snd (maybe_delay_then s now fn)) =
            effects s @ [SingleShot (py_trunc ((ts - now) * 1000)) (CbProceed fn)]
        \<and> must_slow_turn (snd (maybe_delay_then s now fn))
        \<and> earliest_display_ts (snd (maybe_delay_then s now fn)) = Some ts)
   \<and> handle s (Fire (CbProceed fn) later) = run_proceed s fn
   \<and> (is_enabled s TYPEWRITER
        \<and> \<not> (is_enabled s STREAMING \<and> current_streaming_bubble s)
        \<and> \<not> contains_str ''```'' reply' \<longrightarrow>
        fst (maybe_delay_then s now (ProceedResponse reply')) = None
        \<and> must_slow_turn (snd (maybe_delay_then s now (ProceedResponse reply')))
            = must_slow_turn s
        \<and> earliest_display_ts (snd (maybe_delay_then s now (ProceedResponse reply')))
            = earliest_display_ts s)
   \<and> (plan_blocks c = [] \<and> fst (finish_response c reply) = None \<longrightarrow>
        \<not> must_slow_turn (snd (finish_response c reply))
        \<and> earliest_display_ts (snd (finish_response c reply)) = None)
   \<and> must_slow_turn
        (prepare_turn_slowdown (q\<lparr>must_slow_turn := m, earliest_display_ts := e\<rparr>) send_ts)
       = must_slow_turn (prepare_turn_slowdown q send_ts)
   \<and> earliest_display_ts
        (prepare_turn_slowdown (q\<lparr>must_slow_turn := m, earliest_display_ts := e\<rparr>) send_ts)
       = earliest_display_ts (prepare_turn_slowdown q send_ts)"
proof -
  have fresh: "must_slow_turn
        (prepare_turn_slowdown (q\<lparr>must_slow_turn := m, earliest_display_ts := e\<rparr>) send_ts)
       = must_slow_turn (prepare_turn_slowdown q send_ts)
     \<and> earliest_display_ts
        (prepare_turn_slowdown (q\<lparr>must_slow_turn := m, earliest_display_ts := e\<rparr>) send_ts)
       = earliest_display_ts (prepare_turn_slowdown q send_ts)"
    by (simp add: prepare_turn_slowdown_def slowdown_permanent_active_def in_slow_window_def
        is_enabled_def setting_or_def Let_def)
  have gate: "maybe_delay_then s now fn =
     (case (if must_slow_turn s then earliest_display_ts s else None) of
        None \<Rightarrow> run_proceed s fn
      | Some ts \<Rightarrow>
          if now < ts
          then (None, add_effect s (SingleShot (py_trunc ((ts - now) * 1000)) (CbProceed fn)))
          else run_proceed s fn)"
    by (simp add: maybe_delay_then_def Let_def max_def split: option.splits)
  have scheduled: "fst (maybe_delay_then s now fn) = None
        \<and> effects (snd (maybe_delay_then s now fn)) =
            effects s @ [SingleShot (py_trunc ((ts - now) * 1000)) (CbProceed fn)]
        \<and> must_slow_turn (snd (maybe_delay_then s now fn))
        \<and> earliest_display_ts (snd (maybe_delay_then s now fn)) = Some ts"
    if "must_slow_turn s" "earliest_display_ts s = Some ts" "now < ts"
    using that by (simp add: gate add_effect_def)
  have timer: "handle s (Fire (CbProceed fn) later) = run_proceed s fn"
    by (simp add: handle_def)
  have typing: "fst (maybe_delay_then s now (ProceedResponse reply')) = None
        \<and> must_slow_turn (snd (maybe_delay_then s now (ProceedResponse reply')))
            = must_slow_turn s
        \<and> earliest_display_ts (snd (maybe_delay_then s now (ProceedResponse reply')))
            = earliest_display_ts s"
    if "is_enabled s TYPEWRITER" "\<not> (is_enabled s STREAMING \<and> current_streaming_bubble s)"
      "\<not> contains_str ''```'' reply'"
    using that by (rule gate_typewriter_keeps_decision)
  have commit: "\<not> must_slow_turn (snd (finish_response c reply))
        \<and> earliest_display_ts (snd (finish_response c reply)) = None"
    if "plan_blocks c = []" "fst (finish_response c reply) = None"
    using that finish_standard_clears by (simp add: finish_response_standard)
  from gate scheduled timer typing commit fresh show ?thesis by blast
qed

text \<open>
  Witness for C8: the typed-out slowdown example, without blueprint. The turn sent at
  time 5 may be displayed from time 9 on. A reply arriving at time 6 is scheduled 3000 ms
  later with the decision unchanged. A reply arriving at time 20 is typed out at once
  and the decision is still set; when the typing is done the reply is committed, and
  the commit clears the decision that was set until then.
\<close>

theorem maybe_delay_then_gate_witness:
  "must_slow_turn typewriter_turn_sent
   \<and> earliest_display_ts typewriter_turn_sent = Some 9
   \<and> (6::real) < 9
   \<and> effects (snd (maybe_delay_then typewriter_turn_sent 6 (ProceedResponse ''hi''))) =
       effects typewriter_turn_sent @ [SingleShot 3000 (CbProceed (ProceedResponse ''hi''))]
   \<and> must_slow_turn (snd (maybe_delay_then typewriter_turn_sent 6 (ProceedResponse ''hi'')))
   \<and> is_enabled typewriter_turn_sent TYPEWRITER
   \<and> \<not> (is_enabled typewriter_turn_sent STREAMING
         \<and> current_streaming_bubble typewriter_turn_sent)
   \<and> \<not> contains_str ''```'' ''hi''
   \<and> must_slow_turn (snd (maybe_delay_then typewriter_turn_sent 20 (ProceedResponse ''hi'')))
   \<and> plan_blocks (add_effect typewriter_turn_typing (AddMessage ''hi'')) = []
   \<and> must_slow_turn (add_effect typewriter_turn_typing (AddMessage ''hi''))
   \<and> fst (finish_response (add_effect typewriter_turn_typing (AddMessage ''hi'')) ''hi'') = None
   \<and> \<not> must_slow_turn
         (snd (finish_response (add_effect typewriter_turn_typing (AddMessage ''hi'')) ''hi''))
   \<and> earliest_display_ts
         (snd (finish_response (add_effect typewriter_turn_typing (AddMessage ''hi'')) ''hi''))
       = None"
proof -
  have h1: "must_slow_turn typewriter_turn_sent"
    and h2: "earliest_display_ts typewriter_turn_sent = Some 9"
    and t1: "is_enabled typewriter_turn_sent TYPEWRITER"
    and t2: "\<not> (is_enabled typewriter_turn_sent STREAMING
               \<and> current_streaming_bubble typewriter_turn_sent)"
    using typewriter_turn_sent_fields by simp_all
  have h3: "(6::real) < 9" by simp
  have t3: "\<not> contains_str ''```'' ''hi''" by simp
  have k1: "plan_blocks (add_effect typewriter_turn_typing (AddMessage ''hi'')) = []"
    and k0: "must_slow_turn (add_effect typewriter_turn_typing (AddMessage ''hi''))"
    using typewriter_turn_typing_fields by (simp_all add: add_effect_def plan_blocks_def)
  have k2: "fst (finish_response (add_effect typewriter_turn_typing (AddMessage ''hi'')) ''hi'')
              = None"
    by (simp add: typewriter_turn_typing_def typewriter_turn_sent_def
        typewriter_slow_example_def init_window_defs gate_defs finish_response_def
        finish_standard_def schedule_survey_def check_auto_end_conditions_def blocking_due_def)
  have ms: "py_trunc ((9 - 6) * 1000) = 3000" by (simp add: py_trunc_def)
  note gate =
    maybe_delay_then_gate
      [where s = typewriter_turn_sent and now = 6 and fn = "ProceedResponse ''hi''" and ts = 9
         and c = "add_effect typewriter_turn_typing (AddMessage ''hi'')" and reply = "''hi''"]
  note fired =
    maybe_delay_then_gate
      [where s = typewriter_turn_sent and now = 20 and reply' = "''hi''"]
  from gate h1 h2 h3 ms
  have a: "effects (snd (maybe_delay_then typewriter_turn_sent 6 (ProceedResponse ''hi''))) =
       effects typewriter_turn_sent @ [SingleShot 3000 (CbProceed (ProceedResponse ''hi''))]
     \<and> must_slow_turn (snd (maybe_delay_then typewriter_turn_sent 6 (ProceedResponse ''hi'')))"
    by (simp add: add_effect_def)
  from fired t1 t2 t3 h1
  have b: "must_slow_turn
             (snd (maybe_delay_then typewriter_turn_sent 20 (ProceedResponse ''hi'')))"
    by blast
  from gate k1 k2
  have c: "\<not> must_slow_turn
         (snd (finish_response (add_effect typewriter_turn_typing (AddMessage ''hi'')) ''hi''))
     \<and> earliest_display_ts
         (snd (finish_response (add_effect typewriter_turn_typing (AddMessage ''hi'')) ''hi''))
       = None"
    by blast
  from h1 h2 h3 a t1 t2 t3 b k1 k0 k2 c show ?thesis by blast
qed

text \<open>
  C8 as stated fails on its last part, since the gate assigns nothing. In the typed-out
  slowdown example no blueprint is loaded and the reply arrives at time 20, after the
  earliest display time 9, so the gate fires: it runs the action at once, which starts
  typing the reply; when the gate has returned, \<open>must_slow_turn\<close> is still set.
\<close>

theorem maybe_delay_then_counterexample:
  "plan_blocks typewriter_turn_sent = []
   \<and> must_slow_turn typewriter_turn_sent
   \<and> earliest_display_ts typewriter_turn_sent = Some 9
   \<and> fst (maybe_delay_then typewriter_turn_sent 20 (ProceedResponse ''hi'')) = None
   \<and> effects (snd (maybe_delay_then typewriter_turn_sent 20 (ProceedResponse ''hi''))) =
        effects typewriter_turn_sent @ [StartTypewriter (SInt 20)]
   \<and> must_slow_turn (snd (maybe_delay_then typewriter_turn_sent 20 (ProceedResponse ''hi'')))"
  by (simp add: typewriter_turn_sent_def typewriter_slow_example_def init_window_defs gate_defs)

subsection \<open>Paired dispatch\<close>

lemma run_proceed_ab_ready:
  "ab_responses_ready (snd (run_proceed s ProceedAb)) = ab_responses_ready s"
  by (simp add: run_proceed_def stop_thinking_def add_effect_def Let_def split: option.splits)

lemma gate_ab_ready:
  "ab_responses_ready (snd (maybe_delay_then s now ProceedAb)) = ab_responses_ready s"
  by (simp add: maybe_delay_then_def Let_def add_effect_def run_proceed_ab_ready
      split: option.splits)

lemma ab_trial_started_fields:
  "ab_responses ab_trial_started = Some [''A'' \<mapsto> None, ''B'' \<mapsto> None]
   \<and> ab_responses_ready ab_trial_started = 0
   \<and> \<not> must_slow_turn ab_trial_started
   \<and> \<not> current_thinking_bubble ab_trial_started"
  by (simp add: ab_trial_started_def ab_example_def init_window_defs send_after_delay_def
      prepare_turn_slowdown_def is_enabled_def no_features_def live_dispatch_def
      thinking_if_idle_def add_effect_def Let_def)

text \<open>
  C2. While a comparison trial is pending, the completion of one side stores the text
  under the side's key and increments the ready count; unless the count thereby becomes
  2, nothing else happens: no effect is added to the trace (no teardown of the thinking
  bubble, no dialog, no timer) and the thinking bubble stays. Conversely, whenever the
  delivery of a completion adds an effect, the ready count is 2 afterwards. So after
  exactly one side of a fresh trial has completed, no reveal is observed and the trial
  is pending with that side's text stored.
\<close>

theorem on_ab_response_reveals_at_two:
  assumes "ab_responses s = Some r"
  shows "(ab_responses_ready s + 1 \<noteq> 2 \<longrightarrow>
            fst (on_ab_response s reply version now) = None
          \<and> effects (snd (on_ab_response s reply version now)) = effects s
          \<and> current_thinking_bubble (snd (on_ab_response s reply version now))
               = current_thinking_bubble s
          \<and> ab_responses (snd (on_ab_response s reply version now))
               = Some (r(version \<mapsto> Some reply))
          \<and> ab_responses_ready (snd (on_ab_response s reply version now))
               = ab_responses_ready s + 1)
       \<and> (effects (snd (on_ab_response s reply version now)) \<noteq> effects s \<longrightarrow>
            ab_responses_ready (snd (on_ab_response s reply version now)) = 2)"
  using assms
  by (simp add: on_ab_response_def Let_def gate_ab_ready)

text \<open>
  Witness for C2: a fresh trial, where the completion of side A leaves the trace as it
  is with one side ready, and the completion of side B after it opens the comparison
  dialog with the ready count at 2.
\<close>

theorem on_ab_response_reveals_at_two_witness:
  "ab_responses ab_trial_started = Some [''A'' \<mapsto> None, ''B'' \<mapsto> None]
   \<and> ab_responses_ready ab_trial_started + 1 \<noteq> 2
   \<and> effects (snd (on_ab_response ab_trial_started ''x'' ''A'' 2)) = effects ab_trial_started
   \<and> ab_responses (snd (on_ab_response ab_trial_started ''x'' ''A'' 2))
        = Some [''A'' \<mapsto> Some ''x'', ''B'' \<mapsto> None]
   \<and> ab_responses_ready (snd (on_ab_response ab_trial_started ''x'' ''A'' 2)) = 1
   \<and> ab_responses ab_one_side_ready = Some [''A'' \<mapsto> Some ''x'', ''B'' \<mapsto> None]
   \<and> effects (snd (on_ab_response ab_one_side_ready ''y'' ''B'' 3))
        = effects ab_one_side_ready @ [ShowAbDialog (Some ''x'') (Some ''y'')]
   \<and> effects (snd (on_ab_response ab_one_side_ready ''y'' ''B'' 3)) \<noteq> effects ab_one_side_ready
   \<and> ab_responses_ready (snd (on_ab_response ab_one_side_ready ''y'' ''B'' 3)) = 2"
proof -
  have h1: "ab_responses ab_trial_started = Some [''A'' \<mapsto> None, ''B'' \<mapsto> None]"
    and r0: "ab_responses_ready ab_trial_started = 0"
    using ab_trial_started_fields by simp_all
  from r0 have h2: "ab_responses_ready ab_trial_started + 1 \<noteq> 2" by simp
  have upd: "[''A'' \<mapsto> None, ''B'' \<mapsto> None](''A'' \<mapsto> Some ''x'')
             = [''A'' \<mapsto> Some ''x'', ''B'' \<mapsto> (None :: string option)]"
    by (rule ext) simp
  from on_ab_response_reveals_at_two [OF h1, of "''x''" "''A''" 2] h2 r0
  have first: "effects (snd (on_ab_response ab_trial_started ''x'' ''A'' 2)) = effects ab_trial_started
     \<and> ab_responses (snd (on_ab_response ab_trial_started ''x'' ''A'' 2))
        = Some [''A'' \<mapsto> Some ''x'', ''B'' \<mapsto> None]
     \<and> ab_responses_ready (snd (on_ab_response ab_trial_started ''x'' ''A'' 2)) = 1"
    by (simp add: upd)
  then have k1: "ab_responses ab_one_side_ready = Some [''A'' \<mapsto> Some ''x'', ''B'' \<mapsto> None]"
    and r1: "ab_responses_ready ab_one_side_ready = 1"
    by (simp_all add: ab_one_side_ready_def)
  have quiet: "\<not> must_slow_turn ab_one_side_ready \<and> \<not> current_thinking_bubble ab_one_side_ready"
    using ab_trial_started_fields
    by (simp add: ab_one_side_ready_def on_ab_response_def Let_def)
  have shown: "effects (snd (on_ab_response ab_one_side_ready ''y'' ''B'' 3))
        = effects ab_one_side_ready @ [ShowAbDialog (Some ''x'') (Some ''y'')]"
    using k1 r1 quiet
    by (simp add: on_ab_response_def maybe_delay_then_def run_proceed_def stop_thinking_def
        add_effect_def Let_def)
  then have k2: "effects (snd (on_ab_response ab_one_side_ready ''y'' ''B'' 3))
        \<noteq> effects ab_one_side_ready"
    by simp
  from on_ab_response_reveals_at_two [OF k1, of "''y''" "''B''" 3] k2
  have "ab_responses_ready (snd (on_ab_response ab_one_side_ready ''y'' ''B'' 3)) = 2"
    by simp
  with h1 h2 first k1 shown k2 show ?thesis by simp
qed

subsection \<open>Script player\<close>

lemma cursor_add_effect [simp]: "cursor (add_effect s e) = cursor s"
  by (simp add: cursor_def add_effect_def)

lemma cursor_apply_block_config [simp]: "cursor (apply_block_config s b) = cursor s"
  by (simp add: cursor_def apply_block_config_def Let_def add_effect_def
      setup_erase_history_timer_def apply_text_size_def)

lemma cursor_start_next_block [simp]: "cursor (snd (start_next_block s)) = cursor s"
  by (simp add: start_next_block_def Let_def end_chat_def add_system_message_def
      split: sum.splits) (simp add: cursor_def)

lemma cursor_check [simp]: "cursor (snd (check_auto_end_conditions s)) = cursor s"
  by (simp add: check_auto_end_conditions_def auto_end_chat_def add_system_message_def Let_def)

lemma cursor_start_block [simp]: "cursor (start_block s) = cursor s"
  by (simp add: start_block_def Let_def) (simp add: cursor_def add_effect_def)

lemma cursor_finish_standard [simp]: "cursor (snd (finish_standard s)) = cursor s"
proof (cases "schedule_survey s")
  case (Inl e)
  then show ?thesis by (simp add: finish_standard_def)
next
  case (Inr s1)
  from schedule_survey_cases [OF Inr] have c1: "cursor s1 = cursor s" by auto
  define s3 where
    "s3 = snd (check_auto_end_conditions
                (s1\<lparr>must_slow_turn := False, earliest_display_ts := None\<rparr>))"
  have c3: "cursor s3 = cursor s"
    using c1 by (simp add: s3_def) (simp add: cursor_def)
  show ?thesis
    using c3 by (cases "blocking_due s3")
      (simp_all add: finish_standard_def Inr Let_def s3_def [symmetric])
qed

lemma cursor_finish_response [simp]: "cursor (snd (finish_response s reply)) = cursor s"
proof -
  define c where "c = s\<lparr>last_ab_choice := None, ab_responses := None,
        history := history s @ [(''assistant'', reply)], count := count s + 1,
        assistant_message_count := assistant_message_count s + 1\<rparr>"
  have cc: "cursor c = cursor s" by (simp add: c_def cursor_def)
  define s2 where "s2 = c\<lparr>messages_in_current_block := messages_in_current_block c + 1\<rparr>"
  have c2: "cursor s2 = cursor s" using cc by (simp add: s2_def cursor_def)
  show ?thesis
  proof (cases "plan_blocks c = []")
    case True
    then show ?thesis
      using cc by (simp add: finish_response_def Let_def c_def [symmetric])
  next
    case False
    then have pb: "plan_blocks s2 \<noteq> []" by (simp add: s2_def plan_blocks_def)
    show ?thesis
      using False c2
      by (simp add: finish_response_def Let_def c_def [symmetric] s2_def [symmetric]
          split: sum.splits option.splits)
  qed
qed


lemma cursor_stop_thinking [simp]: "cursor (stop_thinking s) = cursor s"
  by (simp add: stop_thinking_def) (simp add: cursor_def add_effect_def)

lemma cursor_start_thinking [simp]: "cursor (start_thinking s) = cursor s"
  by (simp add: start_thinking_def) (simp add: cursor_def add_effect_def)

lemma cursor_thinking_if_idle [simp]: "cursor (thinking_if_idle s) = cursor s"
  by (simp add: thinking_if_idle_def)

lemma cursor_display_response [simp]:
  "cursor (snd (display_response s reply b)) = cursor s"
  by (simp add: display_response_def Let_def) (simp add: cursor_def add_effect_def)

lemma cursor_run_proceed [simp]: "cursor (snd (run_proceed s fn)) = cursor s"
  by (cases fn) (simp_all add: run_proceed_def Let_def split: option.splits)

lemma cursor_maybe_delay_then [simp]: "cursor (snd (maybe_delay_then s now fn)) = cursor s"
  by (simp add: maybe_delay_then_def Let_def split: option.splits)

lemma cursor_on_response [simp]: "cursor (snd (on_response s reply now)) = cursor s"
  by (simp add: on_response_def)

lemma cursor_on_ab_response [simp]:
  "cursor (snd (on_ab_response s reply version now)) = cursor s"
  by (simp add: on_ab_response_def Let_def split: option.splits) (simp add: cursor_def)

lemma cursor_handle_scripted_ab_turn [simp]:
  "cursor (snd (handle_scripted_ab_turn s a b now)) = cursor s"
  by (simp add: handle_scripted_ab_turn_def)

lemma cursor_prepare_turn_slowdown [simp]: "cursor (prepare_turn_slowdown s ts) = cursor s"
  by (simp add: prepare_turn_slowdown_def Let_def cursor_def)

lemma cursor_live_dispatch [simp]: "cursor (snd (live_dispatch s txt)) = cursor s"
proof -
  have upd: "cursor (s'\<lparr>ab_responses := x, ab_responses_ready := y\<rparr>) = cursor s'" for s' x y
    by (simp add: cursor_def)
  show ?thesis
    by (simp add: live_dispatch_def Let_def upd split: sum.splits)
qed

lemma send_after_delay_exhausted:
  assumes "length (scripted_convo s) \<le> script_index s"
  shows "send_after_delay s txt ts now = live_dispatch (prepare_turn_slowdown s ts) txt"
proof -
  have "cursor (prepare_turn_slowdown s ts) = cursor s" by simp
  then have "script_index (prepare_turn_slowdown s ts) = script_index s"
    "scripted_convo (prepare_turn_slowdown s ts) = scripted_convo s"
    by (simp_all add: cursor_def)
  with assms show ?thesis by (simp add: send_after_delay_def Let_def)
qed

lemma send_after_delay_cursor:
  "scripted_convo (snd (send_after_delay s txt ts now)) = scripted_convo s
   \<and> script_index s \<le> script_index (snd (send_after_delay s txt ts now))
   \<and> script_index (snd (send_after_delay s txt ts now)) \<le>
       max (script_index s) (length (scripted_convo s))"
proof -
  define s1 where "s1 = prepare_turn_slowdown s ts"
  have c1: "cursor s1 = cursor s" by (simp add: s1_def)
  define s2 where "s2 = s1\<lparr>script_index := script_index s1 + 1\<rparr>"
  have a: "cursor (snd (live_dispatch s1 txt)) = cursor s" using c1 by simp
  have b: "cursor (snd (live_dispatch s2 txt)) = cursor s2" by simp
  have th: "cursor (if c then start_thinking s2 else s2) = cursor s2" for c by simp
  have c: "cursor (snd (handle_scripted_ab_turn (if c then start_thinking s2 else s2) x y now))
      = cursor s2" for c x y by simp
  have d: "cursor (add_effect (if c then start_thinking s2 else s2) e) = cursor s2" for c e
    by simp
  have s2c: "cursor s2 = (script_index s + 1, scripted_convo s)"
    using c1 by (simp add: s2_def cursor_def)
  have "cursor (snd (send_after_delay s txt ts now)) = cursor s
      \<or> (script_index s < length (scripted_convo s)
         \<and> cursor (snd (send_after_delay s txt ts now)) = cursor s2)"
    using c1 a b c d
    unfolding send_after_delay_def Let_def s1_def [symmetric] s2_def [symmetric]
    by (auto simp add: cursor_def simp del: cursor_live_dispatch cursor_handle_scripted_ab_turn cursor_add_effect)
  then show ?thesis using s2c by (auto simp add: cursor_def)
qed

lemma handle_cursor:
  "scripted_convo (snd (handle s ev)) = scripted_convo s
   \<and> script_index s \<le> script_index (snd (handle s ev))
   \<and> script_index (snd (handle s ev)) \<le> max (script_index s) (length (scripted_convo s))"
proof (cases ev)
  case (Send msg ts now)
  then show ?thesis using send_after_delay_cursor [of s msg ts now] by (simp add: handle_def)
next
  case (Response reply now)
  have "cursor (snd (handle s ev)) = cursor s" by (simp add: handle_def Response)
  then show ?thesis by (simp add: cursor_def)
next
  case (AbResponse reply version now)
  have "cursor (snd (handle s ev)) = cursor s" by (simp add: handle_def AbResponse)
  then show ?thesis by (simp add: cursor_def)
next
  case (Fire cb now)
  have "cursor (snd (handle s ev)) = cursor s"
    by (cases cb) (simp_all add: handle_def Fire end_chat_def)
  then show ?thesis by (simp add: cursor_def)
next
  case TypewriterDone
  have "cursor (snd (handle s ev)) = cursor s" by (simp add: handle_def TypewriterDone)
  then show ?thesis by (simp add: cursor_def)
next
  case (SetFlag flag checked)
  have "cursor (snd (handle s ev)) = cursor s" by (simp add: handle_def SetFlag cursor_def)
  then show ?thesis by (simp add: cursor_def)
qed

lemma run_cursor:
  "scripted_convo (run s evs) = scripted_convo s
   \<and> script_index s \<le> script_index (run s evs)
   \<and> script_index (run s evs) \<le> max (script_index s) (length (scripted_convo s))"
proof (induction evs arbitrary: s)
  case Nil
  then show ?case by simp
next
  case (Cons ev evs)
  from Cons.IH [of "snd (handle s ev)"] handle_cursor [of s ev]
  show ?case by (simp add: max_def split: if_splits)
qed


lemma cursor_setup_timers [simp]:
  "cursor (setup_auto_end_timer s) = cursor s"
  "cursor (setup_erase_history_timer s) = cursor s"
  "cursor (apply_text_size s) = cursor s"
  by (simp_all add: setup_auto_end_timer_def setup_erase_history_timer_def
      apply_text_size_def Let_def cursor_def add_effect_def)

lemma cursor_initialize_blueprint_mode [simp]:
  "cursor (initialize_blueprint_mode s filename bp) = cursor s"
proof (cases bp)
  case (Loaded plan)
  have "cursor (snd (start_next_block (s\<lparr>experiment_plan := Some plan\<rparr>)))
          = cursor (s\<lparr>experiment_plan := Some plan\<rparr>)"
    by (rule cursor_start_next_block)
  then show ?thesis by (simp add: initialize_blueprint_mode_def Loaded cursor_def)
qed (simp_all add: initialize_blueprint_mode_def add_system_message_def)

lemma cursor_init_window: "cursor (init_window ef fs script t0 filename file) = (0, script)"
proof -
  have "cursor (init_attributes ef fs script t0) = (0, script)"
    by (simp add: cursor_def init_attributes_def)
  then show ?thesis by (simp add: init_window_def Let_def)
qed

lemma run_append: "run s (evs @ evs') = run (run s evs) evs'"
  by (induction evs arbitrary: s) simp_all

text \<open>
  C5. Over any sequence of events of a session the script list stays the same and the
  cursor never decreases; started at 0 (and from any state where it is within the list)
  it never exceeds the length of the list, since only a turn that consumes a step moves
  it, by one. Once the cursor has reached the end of the list it stays there for the
  rest of the session, and every later turn, however many follow, yields no script step:
  the turn is exactly the live dispatch.
\<close>

theorem script_cursor_monotone_and_final:
  "scripted_convo (run s evs) = scripted_convo s
   \<and> script_index s \<le> script_index (run s evs)
   \<and> script_index (run s evs) \<le> script_index (run s (evs @ evs'))
   \<and> script_index (run (init_window ef fs script t0 filename file) evs) \<le> length script
   \<and> (script_index s \<le> length (scripted_convo s) \<longrightarrow>
        script_index (run s evs) \<le> length (scripted_convo s))
   \<and> (length (scripted_convo s) \<le> script_index s \<longrightarrow>
        script_index (run s evs) = script_index s
        \<and> send_after_delay (run s evs) msg ts now =
            live_dispatch (prepare_turn_slowdown (run s evs) ts) msg)"
proof -
  note rc = run_cursor [of s evs]
  have mono: "script_index (run s evs) \<le> script_index (run s (evs @ evs'))"
    using run_cursor [of "run s evs" evs'] by (simp add: run_append)
  have "cursor (init_window ef fs script t0 filename file) = (0, script)"
    by (rule cursor_init_window)
  then have "script_index (init_window ef fs script t0 filename file) = 0"
    and "scripted_convo (init_window ef fs script t0 filename file) = script"
    by (simp_all add: cursor_def)
  then have init:
    "script_index (run (init_window ef fs script t0 filename file) evs) \<le> length script"
    using run_cursor [of "init_window ef fs script t0 filename file" evs] by simp
  have bounded: "script_index (run s evs) \<le> length (scripted_convo s)"
    if "script_index s \<le> length (scripted_convo s)"
    using rc that by simp
  have exhausted: "script_index (run s evs) = script_index s
        \<and> send_after_delay (run s evs) msg ts now =
            live_dispatch (prepare_turn_slowdown (run s evs) ts) msg"
    if "length (scripted_convo s) \<le> script_index s"
  proof -
    from rc that have eq: "script_index (run s evs) = script_index s" by (simp add: max_def)
    with rc that have "length (scripted_convo (run s evs)) \<le> script_index (run s evs)" by simp
    from send_after_delay_exhausted [OF this] eq show ?thesis by simp
  qed
  from rc mono init bounded exhausted show ?thesis by blast
qed


lemmas send_defs =
  handle_def send_after_delay_def prepare_turn_slowdown_def live_dispatch_def
  thinking_if_idle_def is_enabled_def init_window_defs no_features_def add_effect_def Let_def

lemma script_exhausted_example_fields:
  "script_index script_exhausted_example = 1
   \<and> length (scripted_convo script_exhausted_example) = 1
   \<and> effects script_exhausted_example = [SingleShot 1000 (CbOnResponse ''hi'')]"
  by (simp add: script_exhausted_example_def script_example_def send_defs)

text \<open>
  Witness for C5: the one-step script. From the start two turns leave the cursor within
  the list; after the first turn the script is exhausted, a further turn leaves the
  cursor where it is, and the turn after that is the live dispatch.
\<close>

theorem script_cursor_monotone_and_final_witness:
  "script_index script_example \<le> length (scripted_convo script_example)
   \<and> script_index (run script_example [Send ''q'' 1 1, Send ''r'' 2 2])
        \<le> length (scripted_convo script_example)
   \<and> length (scripted_convo script_exhausted_example) \<le> script_index script_exhausted_example
   \<and> script_index (run script_exhausted_example [Send ''r'' 2 2])
        = script_index script_exhausted_example
   \<and> send_after_delay (run script_exhausted_example [Send ''r'' 2 2]) ''s'' 3 3 =
        live_dispatch (prepare_turn_slowdown (run script_exhausted_example [Send ''r'' 2 2]) 3) ''s''"
proof -
  have h1: "script_index script_example \<le> length (scripted_convo script_example)"
    by (simp add: script_example_def init_window_defs)
  have h2: "length (scripted_convo script_exhausted_example)
              \<le> script_index script_exhausted_example"
    using script_exhausted_example_fields by simp
  from script_cursor_monotone_and_final
         [where s = script_example and evs = "[Send ''q'' 1 1, Send ''r'' 2 2]"] h1
  have a: "script_index (run script_example [Send ''q'' 1 1, Send ''r'' 2 2])
        \<le> length (scripted_convo script_example)"
    by blast
  from script_cursor_monotone_and_final
         [where s = script_exhausted_example and evs = "[Send ''r'' 2 2]"
            and msg = "''s''" and ts = 3 and now = 3] h2
  have b: "script_index (run script_exhausted_example [Send ''r'' 2 2])
        = script_index script_exhausted_example
     \<and> send_after_delay (run script_exhausted_example [Send ''r'' 2 2]) ''s'' 3 3 =
        live_dispatch (prepare_turn_slowdown (run script_exhausted_example [Send ''r'' 2 2]) 3) ''s''"
    by blast
  from h1 h2 a b show ?thesis by blast
qed

lemma live_dispatch_effects:
  "\<exists>new. effects (snd (live_dispatch s msg)) = effects s @ new
     \<and> set new \<subseteq> {StartThinking, StartAbUiAltWorkflow msg} \<union> range StartThread"
proof -
  have th: "\<exists>new. effects (thinking_if_idle s) = effects s @ new \<and> set new \<subseteq> {StartThinking}"
    by (simp add: thinking_if_idle_def start_thinking_def add_effect_def)
  then obtain n0 where n0: "effects (thinking_if_idle s) = effects s @ n0" "set n0 \<subseteq> {StartThinking}"
    by blast
  have "effects (snd (live_dispatch s msg)) = effects s
      \<or> effects (snd (live_dispatch s msg)) = effects s @ n0 @ [StartAbUiAltWorkflow msg]
      \<or> (\<exists>t. effects (snd (live_dispatch s msg)) = effects s @ n0 @ [StartThread t])
      \<or> (\<exists>t u. effects (snd (live_dispatch s msg)) = effects s @ n0 @ [StartThread t, StartThread u])"
    using n0(1) by (simp add: live_dispatch_def Let_def add_effect_def split: sum.splits)
  then show ?thesis
  proof (elim disjE exE)
    assume "effects (snd (live_dispatch s msg)) = effects s"
    then show ?thesis by (intro exI [of _ "[]"]) simp
  next
    assume "effects (snd (live_dispatch s msg)) = effects s @ n0 @ [StartAbUiAltWorkflow msg]"
    then show ?thesis using n0(2) by (intro exI [of _ "n0 @ [StartAbUiAltWorkflow msg]"]) auto
  next
    fix t assume "effects (snd (live_dispatch s msg)) = effects s @ n0 @ [StartThread t]"
    then show ?thesis using n0(2) by (intro exI [of _ "n0 @ [StartThread t]"]) auto
  next
    fix t u assume "effects (snd (live_dispatch s msg)) = effects s @ n0 @ [StartThread t, StartThread u]"
    then show ?thesis using n0(2) by (intro exI [of _ "n0 @ [StartThread t, StartThread u]"]) auto
  qed
qed

text \<open>
  C10. In scripted mode, when the step at the cursor has a type other than
  \<^verbatim>\<open>normal\<close> and \<^verbatim>\<open>ab_test\<close>, the turn still moves the cursor past the step and
  is otherwise exactly the live dispatch (single request or comparison) of that turn:
  all it adds to the trace are the thinking bubble and the start of the requests, so no
  scripted reply is scheduled, no scripted comparison is opened and no placeholder is
  shown; the content of the step is skipped.
\<close>

theorem unknown_step_type_falls_through:
  assumes "is_enabled s SCRIPTED_RESPONSES"
    and "script_index s < length (scripted_convo s)"
    and "(scripted_convo s ! script_index s) ''type'' = Some t"
    and "t \<noteq> ''normal''" and "t \<noteq> ''ab_test''"
  shows "send_after_delay s msg ts now =
           live_dispatch ((prepare_turn_slowdown s ts)\<lparr>script_index := script_index s + 1\<rparr>) msg
       \<and> script_index (snd (send_after_delay s msg ts now)) = script_index s + 1
       \<and> (\<exists>new. effects (snd (send_after_delay s msg ts now)) = effects s @ new
             \<and> set new \<subseteq> {StartThinking, StartAbUiAltWorkflow msg} \<union> range StartThread)"
proof -
  define s1 where "s1 = prepare_turn_slowdown s ts"
  have c1: "cursor s1 = cursor s" by (simp add: s1_def)
  then have si: "script_index s1 = script_index s" and sc: "scripted_convo s1 = scripted_convo s"
    by (simp_all add: cursor_def)
  have en: "is_enabled s1 SCRIPTED_RESPONSES"
    using assms(1) by (simp add: s1_def prepare_turn_slowdown_def is_enabled_def Let_def)
  have e1: "effects s1 = effects s"
    by (simp add: s1_def prepare_turn_slowdown_def Let_def)
  define s2 where "s2 = s1\<lparr>script_index := script_index s + 1\<rparr>"
  have eq: "send_after_delay s msg ts now = live_dispatch s2 msg"
    using assms en si sc
    by (simp add: send_after_delay_def Let_def s1_def [symmetric] s2_def)
  have "cursor (snd (live_dispatch s2 msg)) = cursor s2" by simp
  then have idx: "script_index (snd (live_dispatch s2 msg)) = script_index s + 1"
    by (simp add: cursor_def s2_def)
  from live_dispatch_effects [of s2 msg] e1
  have eff: "\<exists>new. effects (snd (live_dispatch s2 msg)) = effects s @ new
             \<and> set new \<subseteq> {StartThinking, StartAbUiAltWorkflow msg} \<union> range StartThread"
    by (simp add: s2_def)
  from eq idx eff show ?thesis by (simp add: s2_def s1_def)
qed


text \<open>
  Witness for C10: the script whose only step has the type \<^verbatim>\<open>survey\<close>; the first
  turn moves the cursor to 1 and starts a single live request.
\<close>

theorem unknown_step_type_falls_through_witness:
  "is_enabled script_unknown_example SCRIPTED_RESPONSES
   \<and> script_index script_unknown_example < length (scripted_convo script_unknown_example)
   \<and> (scripted_convo script_unknown_example ! script_index script_unknown_example) ''type''
        = Some ''survey''
   \<and> ''survey'' \<noteq> ''normal'' \<and> ''survey'' \<noteq> ''ab_test''
   \<and> script_index (snd (send_after_delay script_unknown_example ''q'' 1 1)) = 1
   \<and> effects (snd (send_after_delay script_unknown_example ''q'' 1 1)) =
        [StartThread (SingleThread ''q'')]"
proof -
  have h1: "is_enabled script_unknown_example SCRIPTED_RESPONSES"
    by (simp add: script_unknown_example_def init_window_defs is_enabled_def)
  have h2: "script_index script_unknown_example < length (scripted_convo script_unknown_example)"
    by (simp add: script_unknown_example_def init_window_defs)
  have h3: "(scripted_convo script_unknown_example ! script_index script_unknown_example) ''type''
        = Some ''survey''"
    by (simp add: script_unknown_example_def init_window_defs)
  have h4: "''survey'' \<noteq> ''normal''" and h5: "''survey'' \<noteq> ''ab_test''" by simp_all
  have i0: "script_index script_unknown_example = 0"
    by (simp add: script_unknown_example_def init_window_defs)
  note fall = unknown_step_type_falls_through [OF h1 h2 h3 h4 h5, of "''q''" 1 1]
  from fall
  have eq: "send_after_delay script_unknown_example ''q'' 1 1 =
           live_dispatch ((prepare_turn_slowdown script_unknown_example 1)
                            \<lparr>script_index := script_index script_unknown_example + 1\<rparr>) ''q''"
    by (rule conjunct1)
  from fall
  have "script_index (snd (send_after_delay script_unknown_example ''q'' 1 1))
          = script_index script_unknown_example + 1"
    by blast
  then have idx: "script_index (snd (send_after_delay script_unknown_example ''q'' 1 1)) = 1"
    by (simp add: i0)
  have "effects (snd (live_dispatch ((prepare_turn_slowdown script_unknown_example 1)
                            \<lparr>script_index := script_index script_unknown_example + 1\<rparr>) ''q''))
        = [StartThread (SingleThread ''q'')]"
    by (simp add: script_unknown_example_def send_defs)
  with eq have eff: "effects (snd (send_after_delay script_unknown_example ''q'' 1 1)) =
        [StartThread (SingleThread ''q'')]"
    by simp
  from h1 h2 h3 h4 h5 idx eff show ?thesis by simp
qed

end
